theory Spec2Isabelle
  imports Complex_Main "HOL-Library.Finite_Map" "HOL-Library.Sublist"
begin

section \<open>JavaScript numbers and values\<close>

text \<open>
  A JavaScript number is a double: a finite value, one of the two infinities, or NaN.
  Only comparisons of numbers are modelled, and on finite doubles they are the
  comparisons of the reals the doubles denote, so a finite number carries a real
  (the two zeros are one value here; they compare equal in JavaScript as well).
\<close>

datatype jsnum = NaN | NegInf | PosInf | Fin real

text \<open>
  The abstract relational comparison \<open>x < y\<close> of ECMAScript on numbers: it is
  undefined (\<open>None\<close>) as soon as one side is NaN. The four operators are read off it
  as the language defines them: \<open>a >= b\<close> is "\<open>a < b\<close> is false", \<open>a <= b\<close> is
  "\<open>b < a\<close> is false", and an undefined comparison makes every operator false.
\<close>

fun IsLessThan :: "jsnum \<Rightarrow> jsnum \<Rightarrow> bool option" where
  "IsLessThan NaN _ = None"
| "IsLessThan _ NaN = None"
| "IsLessThan (Fin x) (Fin y) = Some (x < y)"
| "IsLessThan NegInf NegInf = Some False"
| "IsLessThan NegInf _ = Some True"
| "IsLessThan PosInf _ = Some False"
| "IsLessThan (Fin _) PosInf = Some True"
| "IsLessThan (Fin _) NegInf = Some False"

definition js_lt :: "jsnum \<Rightarrow> jsnum \<Rightarrow> bool" where
  "js_lt a b = (IsLessThan a b = Some True)"

definition js_gt :: "jsnum \<Rightarrow> jsnum \<Rightarrow> bool" where
  "js_gt a b = (IsLessThan b a = Some True)"

definition js_le :: "jsnum \<Rightarrow> jsnum \<Rightarrow> bool" where
  "js_le a b = (IsLessThan b a = Some False)"

definition js_ge :: "jsnum \<Rightarrow> jsnum \<Rightarrow> bool" where
  "js_ge a b = (IsLessThan a b = Some False)"

text \<open>
  A value as \<open>request.json()\<close> produces it, plus \<open>undefined\<close> for what a property
  read yields when the property is absent. Strings are lists of 8-bit characters (the
  UTF-8 bytes of the text); an object is a finite map from property names to values.
\<close>

datatype jsval =
    JUndefined
  | JNull
  | JBool bool
  | JNum jsnum
  | JStr string
  | JArr "jsval list"
  | JObj "(string, jsval) fmap"

text \<open>\<open>!v\<close> is \<open>\<not> truthy v\<close>: the falsy values are \<open>undefined\<close>, \<open>null\<close>,
  \<open>false\<close>, \<open>0\<close>, \<open>NaN\<close> and the empty string.\<close>

fun truthy :: "jsval \<Rightarrow> bool" where
  "truthy JUndefined = False"
| "truthy JNull = False"
| "truthy (JBool b) = b"
| "truthy (JNum n) = (n \<noteq> NaN \<and> n \<noteq> Fin 0)"
| "truthy (JStr s) = (s \<noteq> [])"
| "truthy (JArr _) = True"
| "truthy (JObj _) = True"

section \<open>The overlay filter panel\<close>

text \<open>
  Modelled from the spec: the interfaces \<open>Location\<close> and \<open>MapOverlay\<close> of
  \<open>@/types/api\<close>, which the panel imports and whose declaration is not among the
  sources. Their fields are the ones of the spec's data model and of the objects the
  sources build (\<open>mockGetMapOverlays\<close>, the seed of the locations route).
\<close>

record BloomingPeriod =
  start :: string
  peak :: string
  end' :: string

record Location =
  id' :: int
  speciesId :: int
  locationName :: string
  coordinates :: "jsnum \<times> jsnum"
  bloomingPeriod :: BloomingPeriod

record Bounds =
  minLon :: jsnum
  maxLon :: jsnum
  minLat :: jsnum
  maxLat :: jsnum

record MapOverlay =
  id' :: int
  name :: string
  address :: string
  imageUrl :: string
  startDate :: "string option"
  endDate :: "string option"
  reportUrl :: string
  chartUrls :: "string list"
  bounds :: Bounds

text \<open>\<open>{...overlay, locationCount, locations}\<close>: the overlay with two more fields.\<close>

record MapOverlayWithStats = MapOverlay +
  locationCount :: nat
  locations :: "Location list"

definition isLocationInOverlay :: "Location \<Rightarrow> MapOverlay \<Rightarrow> bool" where
  "isLocationInOverlay location overlay =
     (case coordinates location of (lon, lat) \<Rightarrow>
        js_ge lon (minLon (bounds overlay)) \<and>
        js_le lon (maxLon (bounds overlay)) \<and>
        js_ge lat (minLat (bounds overlay)) \<and>
        js_le lat (maxLat (bounds overlay)))"

definition overlaysWithStats :: "MapOverlay list \<Rightarrow> Location list \<Rightarrow> MapOverlayWithStats list" where
  "overlaysWithStats allOverlays allLocations =
     map (\<lambda>overlay.
            let overlayLocations = filter (\<lambda>loc. isLocationInOverlay loc overlay) allLocations
            in MapOverlay.extend overlay
                 (MapOverlayWithStats.fields (length overlayLocations) overlayLocations))
         allOverlays"

text \<open>
  The spec's BoundsContainment, in the spec's words: the point is contained iff
  \<open>minLon <= lon <= maxLon\<close> and \<open>minLat <= lat <= maxLat\<close>.
\<close>

definition contains :: "jsnum \<times> jsnum \<Rightarrow> Bounds \<Rightarrow> bool" where
  "contains point box =
     (js_le (minLon box) (fst point) \<and> js_le (fst point) (maxLon box) \<and>
      js_le (minLat box) (snd point) \<and> js_le (snd point) (maxLat box))"

section \<open>Built-ins of the platform\<close>

text \<open>
  The handlers call built-ins of the JavaScript platform that are no code of this
  repository: \<open>parseInt\<close>, \<open>parseFloat\<close>, \<open>String.prototype.trim\<close>,
  \<open>String.prototype.toLowerCase\<close> and the \<open>Date\<close> constructor. They are
  parameters of the model, so a theorem stated for every platform holds for the real
  one. \<open>parseInt\<close> and \<open>parseFloat\<close> take the value they are given, the conversion
  to a string being part of them, and \<open>getTime p v\<close> is the time value of
  \<open>new Date(v)\<close>, NaN for an invalid date. These three convert an object or an array to
  a primitive first, which throws a TypeError when the value has no callable
  \<open>toString\<close> or \<open>valueOf\<close> left (a JSON object with a property \<open>toString\<close> of its
  own): \<open>None\<close> is the call that throws.
\<close>

record platform =
  parseInt :: "jsval \<Rightarrow> jsnum option"
  parseFloat :: "jsval \<Rightarrow> jsnum option"
  trim :: "string \<Rightarrow> string"
  toLowerCase :: "string \<Rightarrow> string"
  getTime :: "jsval \<Rightarrow> jsnum option"

section \<open>The overlay filter panel: search and selection\<close>

text \<open>The props and the state of \<open>OverlayFilterPanel\<close> that the handlers read.\<close>

record panel =
  allOverlays :: "MapOverlay list"
  allLocations :: "Location list"
  selectedOverlayIds :: "int list"
  searchQuery :: string

text \<open>\<open>String.prototype.includes\<close> is the test for a contiguous sublist.\<close>

definition searchResults :: "platform \<Rightarrow> panel \<Rightarrow> MapOverlayWithStats list" where
  "searchResults p s =
     (if trim p (searchQuery s) = [] then overlaysWithStats (allOverlays s) (allLocations s)
      else let query = toLowerCase p (searchQuery s)
           in filter (\<lambda>overlay. sublist query (toLowerCase p (name overlay)))
                (overlaysWithStats (allOverlays s) (allLocations s)))"

text \<open>The handlers return the list they pass to \<open>onOverlayFilter\<close>.\<close>

definition handleOverlayToggle :: "panel \<Rightarrow> int \<Rightarrow> int list" where
  "handleOverlayToggle s overlayId =
     (if overlayId \<in> set (selectedOverlayIds s)
      then filter (\<lambda>i. i \<noteq> overlayId) (selectedOverlayIds s)
      else selectedOverlayIds s @ [overlayId])"

definition handleSelectAll :: "panel \<Rightarrow> int list" where
  "handleSelectAll s =
     (if length (selectedOverlayIds s) = length (overlaysWithStats (allOverlays s) (allLocations s))
      then []
      else map MapOverlay.id' (overlaysWithStats (allOverlays s) (allLocations s)))"

section \<open>The locations route\<close>

text \<open>
  The route keeps its records in the module-level array \<open>locations\<close>, declared
  \<open>Location[]\<close>. \<open>PUT\<close> spreads an arbitrary request body into a record, so at run
  time a record is an object with any properties. Its \<open>id\<close> alone is written by
  \<open>POST\<close> only (\<open>PUT\<close> takes \<open>id\<close> out of the body before it merges) and is
  always an integer: a seed id or a maximum plus one. It is kept apart as an \<open>int\<close>
  (doubles are exact on integers below \<open>2^53\<close>, which a store that grows by one id
  per request does not reach); all other properties are a finite map.
\<close>

record StoredLocation =
  id' :: int
  props :: "(string, jsval) fmap"

datatype error =
    MissingField
  | InvalidCoordinates
  | InvalidBloomingPeriod
  | InvalidDateOrder
  | MissingId
  | NotFound
  | Unexpected

text \<open>The HTTP status the route sends with each failure.\<close>

fun status :: "error \<Rightarrow> nat" where
  "status NotFound = 404"
| "status Unexpected = 500"
| "status _ = 400"

text \<open>A handler returns the \<open>data\<close> of its response, or the failure, and the array
  as it leaves it.\<close>

type_synonym response = "(error + StoredLocation) \<times> StoredLocation list"

text \<open>
  Reading a property of \<open>null\<close> or \<open>undefined\<close> throws a TypeError, which the
  handler's \<open>catch\<close> turns into the 500 response; the handlers test \<open>nullish\<close>
  before they read. On any other value the read yields the own property of an object,
  and \<open>undefined\<close> otherwise: none of the names the route reads (\<open>speciesId\<close>,
  \<open>locationName\<close>, \<open>coordinates\<close>, \<open>bloomingPeriod\<close>, \<open>start\<close>, \<open>peak\<close>,
  \<open>end\<close>, \<open>id\<close>) is a property of a number, boolean, string or array, or of
  \<open>Object.prototype\<close>.
\<close>

fun nullish :: "jsval \<Rightarrow> bool" where
  "nullish JUndefined = True"
| "nullish JNull = True"
| "nullish _ = False"

fun getProp :: "jsval \<Rightarrow> string \<Rightarrow> jsval" where
  "getProp (JObj m) k = (case fmlookup m k of Some v \<Rightarrow> v | None \<Rightarrow> JUndefined)"
| "getProp _ k = JUndefined"

text \<open>\<open>Array.isArray(v) && v.length === n\<close>.\<close>

fun isArrayOfLength :: "nat \<Rightarrow> jsval \<Rightarrow> bool" where
  "isArrayOfLength n (JArr xs) = (length xs = n)"
| "isArrayOfLength n _ = False"

text \<open>\<open>v[i]\<close> on an array; \<open>undefined\<close> beyond its end.\<close>

fun elem :: "jsval \<Rightarrow> nat \<Rightarrow> jsval" where
  "elem (JArr xs) i = (if i < length xs then xs ! i else JUndefined)"
| "elem _ i = JUndefined"

text \<open>\<open>Array.prototype.findIndex\<close>, with \<open>None\<close> for \<open>-1\<close>.\<close>

fun findIndex :: "('a \<Rightarrow> bool) \<Rightarrow> 'a list \<Rightarrow> nat option" where
  "findIndex P [] = None"
| "findIndex P (x # xs) =
     (if P x then Some 0 else map_option Suc (findIndex P xs))"

text \<open>\<open>l.id === n\<close> for a number \<open>n\<close>: NaN and the infinities equal no id.\<close>

definition idIs :: "jsnum \<Rightarrow> StoredLocation \<Rightarrow> bool" where
  "idIs n l = (n = Fin (of_int (StoredLocation.id' l)))"

text \<open>\<open>Math.max(...locations.map((l) => l.id), 0) + 1\<close>.\<close>

definition newId :: "StoredLocation list \<Rightarrow> int" where
  "newId store = foldr max (map StoredLocation.id' store) 0 + 1"

definition POST :: "platform \<Rightarrow> StoredLocation list \<Rightarrow> jsval \<Rightarrow> response" where
  "POST p store body =
     (if nullish body then (Inl Unexpected, store)
      else if \<not> truthy (getProp body ''speciesId'') \<or>
              \<not> truthy (getProp body ''locationName'') \<or>
              \<not> truthy (getProp body ''coordinates'') \<or>
              \<not> truthy (getProp body ''bloomingPeriod'')
      then (Inl MissingField, store)
      else if \<not> isArrayOfLength 2 (getProp body ''coordinates'')
      then (Inl InvalidCoordinates, store)
      else
        let bloomingPeriod = getProp body ''bloomingPeriod'' in
        if \<not> truthy (getProp bloomingPeriod ''start'') \<or>
           \<not> truthy (getProp bloomingPeriod ''peak'') \<or>
           \<not> truthy (getProp bloomingPeriod ''end'')
        then (Inl InvalidBloomingPeriod, store)
        else
          (case (getTime p (getProp bloomingPeriod ''start''),
                 getTime p (getProp bloomingPeriod ''peak''),
                 getTime p (getProp bloomingPeriod ''end'')) of
             (Some startTime, Some peakTime, Some endTime) \<Rightarrow>
               if js_lt peakTime startTime \<or> js_lt endTime peakTime
               then (Inl InvalidDateOrder, store)
               else
                 (case (parseInt p (getProp body ''speciesId''),
                        getProp body ''locationName'',
                        parseFloat p (elem (getProp body ''coordinates'') 0),
                        parseFloat p (elem (getProp body ''coordinates'') 1)) of
                    (Some sid, JStr nm, Some lon, Some lat) \<Rightarrow>
                      let newLocation =
                        \<lparr> StoredLocation.id' = newId store,
                          props = fmap_of_list
                            [(''speciesId'', JNum sid),
                             (''locationName'', JStr (trim p nm)),
                             (''coordinates'', JArr [JNum lon, JNum lat]),
                             (''bloomingPeriod'',
                                JObj (fmap_of_list
                                  [(''start'', getProp bloomingPeriod ''start''),
                                   (''peak'', getProp bloomingPeriod ''peak''),
                                   (''end'', getProp bloomingPeriod ''end'')]))] \<rparr>
                      in (Inr newLocation, store @ [newLocation])
                  | _ \<Rightarrow> (Inl Unexpected, store))
           | _ \<Rightarrow> (Inl Unexpected, store)))"

text \<open>
  In \<open>POST\<close> the two default cases are the calls that throw inside the \<open>try\<close>: a
  \<open>new Date\<close>, \<open>parseInt\<close> or \<open>parseFloat\<close> that cannot convert its argument, and
  \<open>body.locationName.trim()\<close> on a truthy value that is no string (\<open>trim\<close> is then
  \<open>undefined\<close>). All of them run before \<open>locations.push\<close>, and the \<open>catch\<close>
  answers 500.

  \<open>PUT\<close>: \<open>const { id, ...updateData } = body\<close> throws on \<open>null\<close>; on a body that
  is no object \<open>id\<close> is \<open>undefined\<close>; on an object \<open>updateData\<close> is the body
  without its \<open>id\<close>. The callback of \<open>findIndex\<close> calls \<open>parseInt(id)\<close> for each
  record it visits: never on an empty array, and on the first record of any other, where
  a call that throws ends the request with the 500 of the \<open>catch\<close>. The spread
  \<open>{...locations[i], ...updateData}\<close> is the old record overridden by
  \<open>updateData\<close>, which has no \<open>id\<close>.
\<close>

definition PUT :: "platform \<Rightarrow> StoredLocation list \<Rightarrow> jsval \<Rightarrow> response" where
  "PUT p store body =
     (if nullish body then (Inl Unexpected, store)
      else
        let idv = getProp body ''id'';
            updateData = (case body of JObj m \<Rightarrow> fmdrop ''id'' m | _ \<Rightarrow> fmempty)
        in
        if \<not> truthy idv then (Inl MissingId, store)
        else if store = [] then (Inl NotFound, store)
        else
          (case parseInt p idv of
             None \<Rightarrow> (Inl Unexpected, store)
           | Some n \<Rightarrow>
               (case findIndex (idIs n) store of
                  None \<Rightarrow> (Inl NotFound, store)
                | Some locationIndex \<Rightarrow>
                    let merged =
                      \<lparr> StoredLocation.id' = StoredLocation.id' (store ! locationIndex),
                        props = props (store ! locationIndex) ++\<^sub>f updateData \<rparr>
                    in (Inr merged, store[locationIndex := merged]))))"

text \<open>\<open>DELETE\<close> reads \<open>id\<close> from the query string: a string, or \<open>null\<close> when the
  parameter is absent. It finds the record as \<open>PUT\<close> does (the real \<open>parseInt\<close>
  never throws on a string; the model keeps the case, as the platform is a parameter).
  \<open>splice(locationIndex, 1)\<close> removes that one element.\<close>

definition DELETE :: "platform \<Rightarrow> StoredLocation list \<Rightarrow> string option \<Rightarrow> response" where
  "DELETE p store idParam =
     (case idParam of
        None \<Rightarrow> (Inl MissingId, store)
      | Some s \<Rightarrow>
          if s = [] then (Inl MissingId, store)
          else if store = [] then (Inl NotFound, store)
          else
            (case parseInt p (JStr s) of
               None \<Rightarrow> (Inl Unexpected, store)
             | Some n \<Rightarrow>
                 (case findIndex (idIs n) store of
                    None \<Rightarrow> (Inl NotFound, store)
                  | Some locationIndex \<Rightarrow>
                      (Inr (store ! locationIndex),
                       take locationIndex store @ drop (Suc locationIndex) store))))"

text \<open>\<open>l.k\<close> for a stored record and a property name other than \<open>id\<close>.\<close>

definition field :: "StoredLocation \<Rightarrow> string \<Rightarrow> jsval" where
  "field l k = getProp (JObj (props l)) k"


text \<open>The properties \<open>POST\<close> gives the new record, when every conversion returns and
  \<open>locationName\<close> is a string; the record \<open>POST\<close> then appends; and the record
  \<open>PUT\<close> stores in place of \<open>old\<close>. They are named for the proofs and are shown
  below to be what the handlers compute.\<close>

definition normalised :: "platform \<Rightarrow> jsval \<Rightarrow> (string, jsval) fmap option" where
  "normalised p body =
     (case (parseInt p (getProp body ''speciesId''),
            getProp body ''locationName'',
            parseFloat p (elem (getProp body ''coordinates'') 0),
            parseFloat p (elem (getProp body ''coordinates'') 1)) of
        (Some sid, JStr nm, Some lon, Some lat) \<Rightarrow>
          Some (fmap_of_list
            [(''speciesId'', JNum sid),
             (''locationName'', JStr (trim p nm)),
             (''coordinates'', JArr [JNum lon, JNum lat]),
             (''bloomingPeriod'',
                JObj (fmap_of_list
                  [(''start'', getProp (getProp body ''bloomingPeriod'') ''start''),
                   (''peak'', getProp (getProp body ''bloomingPeriod'') ''peak''),
                   (''end'', getProp (getProp body ''bloomingPeriod'') ''end'')]))])
      | _ \<Rightarrow> None)"

definition newLocation :: "platform \<Rightarrow> StoredLocation list \<Rightarrow> jsval \<Rightarrow> StoredLocation" where
  "newLocation p store body =
     \<lparr> StoredLocation.id' = newId store,
       props = (case normalised p body of Some np \<Rightarrow> np | None \<Rightarrow> fmempty) \<rparr>"

definition merged :: "StoredLocation \<Rightarrow> jsval \<Rightarrow> StoredLocation" where
  "merged old body =
     \<lparr> StoredLocation.id' = StoredLocation.id' old,
       props = props old ++\<^sub>f (case body of JObj m \<Rightarrow> fmdrop ''id'' m | _ \<Rightarrow> fmempty) \<rparr>"

text \<open>The array as the module initialises it.\<close>

definition seed :: "StoredLocation list" where
  "seed =
     [\<lparr> StoredLocation.id' = 1,
        props = fmap_of_list
          [(''speciesId'', JNum (Fin 1)),
           (''locationName'', JStr (''V'' @ [CHR 0xC6, CHR 0xB0, CHR 0xE1, CHR 0xBB, CHR 0x9D] @
              ''n hoa Nguy'' @ [CHR 0xE1, CHR 0xBB, CHR 0x85] @ ''n Hu'' @
              [CHR 0xE1, CHR 0xBB, CHR 0x87])),
           (''coordinates'', JArr [JNum (Fin 106.7008), JNum (Fin 10.7769)]),
           (''bloomingPeriod'', JObj (fmap_of_list
              [(''start'', JStr ''2024-02-01''), (''peak'', JStr ''2024-02-15''),
               (''end'', JStr ''2024-03-15'')]))] \<rparr>,
      \<lparr> StoredLocation.id' = 2,
        props = fmap_of_list
          [(''speciesId'', JNum (Fin 2)),
           (''locationName'', JStr (''C'' @ [CHR 0xC3, CHR 0xB4] @ ''ng vi'' @
              [CHR 0xC3, CHR 0xAA] @ ''n Tao '' @ [CHR 0xC4, CHR 0x90, CHR 0xC3, CHR 0xA0] @
              ''n'')),
           (''coordinates'', JArr [JNum (Fin 106.6947), JNum (Fin 10.7881)]),
           (''bloomingPeriod'', JObj (fmap_of_list
              [(''start'', JStr ''2024-01-15''), (''peak'', JStr ''2024-02-01''),
               (''end'', JStr ''2024-02-28'')]))] \<rparr>,
      \<lparr> StoredLocation.id' = 3,
        props = fmap_of_list
          [(''speciesId'', JNum (Fin 1)),
           (''locationName'', JStr (''V'' @ [CHR 0xC6, CHR 0xB0, CHR 0xE1, CHR 0xBB, CHR 0x9D] @
              ''n hoa L'' @ [CHR 0xC3, CHR 0xBD] @ '' T'' @ [CHR 0xE1, CHR 0xBB, CHR 0xB1] @
              '' Tr'' @ [CHR 0xE1, CHR 0xBB, CHR 0x8D] @ ''ng'')),
           (''coordinates'', JArr [JNum (Fin 106.692), JNum (Fin 10.7756)]),
           (''bloomingPeriod'', JObj (fmap_of_list
              [(''start'', JStr ''2024-02-10''), (''peak'', JStr ''2024-02-25''),
               (''end'', JStr ''2024-03-20'')]))] \<rparr>]"

text \<open>
  One store lifetime: the requests that write, served one after the other from the
  seed (the handlers contain no \<open>await\<close> between reading and writing the array).
\<close>

datatype request = Create jsval | Update jsval | Delete "string option"

fun serve :: "platform \<Rightarrow> StoredLocation list \<Rightarrow> request \<Rightarrow> response" where
  "serve p store (Create body) = POST p store body"
| "serve p store (Update body) = PUT p store body"
| "serve p store (Delete idParam) = DELETE p store idParam"

fun run :: "platform \<Rightarrow> StoredLocation list \<Rightarrow> request list \<Rightarrow> StoredLocation list" where
  "run p store [] = store"
| "run p store (r # rs) = run p (snd (serve p store r)) rs"

section \<open>The validator and the data model in the spec's words\<close>

text \<open>
  The four checks of the spec's LocationValidator, in the spec's words: a field is
  "absent or falsy"; the coordinates are "not an array of exactly two elements"; the
  parsed dates have \<open>peak < start\<close> or \<open>end < peak\<close> (there are parsed dates
  when the three \<open>new Date\<close> return).
\<close>

definition absentOrFalsy :: "jsval \<Rightarrow> string \<Rightarrow> bool" where
  "absentOrFalsy v k =
     (case v of
        JObj m \<Rightarrow> (case fmlookup m k of None \<Rightarrow> True | Some x \<Rightarrow> \<not> truthy x)
      | _ \<Rightarrow> True)"

definition missingField :: "jsval \<Rightarrow> bool" where
  "missingField payload =
     (absentOrFalsy payload ''speciesId'' \<or> absentOrFalsy payload ''locationName'' \<or>
      absentOrFalsy payload ''coordinates'' \<or> absentOrFalsy payload ''bloomingPeriod'')"

definition invalidCoordinates :: "jsval \<Rightarrow> bool" where
  "invalidCoordinates payload =
     (case getProp payload ''coordinates'' of JArr [a, b] \<Rightarrow> False | _ \<Rightarrow> True)"

definition invalidBloomingPeriod :: "jsval \<Rightarrow> bool" where
  "invalidBloomingPeriod payload =
     (absentOrFalsy (getProp payload ''bloomingPeriod'') ''start'' \<or>
      absentOrFalsy (getProp payload ''bloomingPeriod'') ''peak'' \<or>
      absentOrFalsy (getProp payload ''bloomingPeriod'') ''end'')"

definition parsedDates :: "platform \<Rightarrow> jsval \<Rightarrow> (jsnum \<times> jsnum \<times> jsnum) option" where
  "parsedDates p payload =
     (case (getTime p (getProp (getProp payload ''bloomingPeriod'') ''start''),
            getTime p (getProp (getProp payload ''bloomingPeriod'') ''peak''),
            getTime p (getProp (getProp payload ''bloomingPeriod'') ''end'')) of
        (Some startTime, Some peakTime, Some endTime) \<Rightarrow> Some (startTime, peakTime, endTime)
      | _ \<Rightarrow> None)"

definition invalidDateOrder :: "platform \<Rightarrow> jsval \<Rightarrow> bool" where
  "invalidDateOrder p payload =
     (case parsedDates p payload of
        Some (startTime, peakTime, endTime) \<Rightarrow> js_lt peakTime startTime \<or> js_lt endTime peakTime
      | None \<Rightarrow> False)"

text \<open>Every call that \<open>POST\<close> makes on the payload returns: the three
  \<open>new Date\<close>, \<open>parseInt\<close>, the two \<open>parseFloat\<close>, and \<open>trim\<close>, which
  is there to call when \<open>locationName\<close> is a string.\<close>

definition converts :: "platform \<Rightarrow> jsval \<Rightarrow> bool" where
  "converts p payload = (parsedDates p payload \<noteq> None \<and> normalised p payload \<noteq> None)"

text \<open>A payload that passes the four checks and on which every call returns.\<close>

definition accepted :: "platform \<Rightarrow> jsval \<Rightarrow> bool" where
  "accepted p payload =
     (\<not> missingField payload \<and> \<not> invalidCoordinates payload \<and>
      \<not> invalidBloomingPeriod payload \<and> \<not> invalidDateOrder p payload \<and> converts p payload)"

text \<open>The spec's data model asks of \<open>coordinates\<close> exactly two finite numbers.\<close>

fun twoFiniteNumbers :: "jsval \<Rightarrow> bool" where
  "twoFiniteNumbers (JArr [JNum (Fin a), JNum (Fin b)]) = True"
| "twoFiniteNumbers _ = False"

text \<open>
  The requests after which two finite coordinates last, in a store where every record
  has them: a Create that is refused, or whose two coordinate elements \<open>parseFloat\<close>
  reads as finite numbers; an Update that is refused, or whose body has no
  \<open>coordinates\<close> of its own, or has two finite numbers there; any Delete. A run keeps
  them when each of its requests does, in the store it meets.
\<close>

fun isFinite :: "jsnum option \<Rightarrow> bool" where
  "isFinite (Some (Fin x)) = True"
| "isFinite _ = False"

definition readsFinite :: "platform \<Rightarrow> jsval \<Rightarrow> bool" where
  "readsFinite p payload =
     (isFinite (parseFloat p (elem (getProp payload ''coordinates'') 0)) \<and>
      isFinite (parseFloat p (elem (getProp payload ''coordinates'') 1)))"

definition keepsCoordinates :: "jsval \<Rightarrow> bool" where
  "keepsCoordinates body =
     (case body of
        JObj m \<Rightarrow> (case fmlookup m ''coordinates'' of None \<Rightarrow> True | Some v \<Rightarrow> twoFiniteNumbers v)
      | _ \<Rightarrow> True)"

fun keepsFinite :: "platform \<Rightarrow> StoredLocation list \<Rightarrow> request \<Rightarrow> bool" where
  "keepsFinite p store (Create body) = (\<not> accepted p body \<or> readsFinite p body)"
| "keepsFinite p store (Update body) = (isl (fst (PUT p store body)) \<or> keepsCoordinates body)"
| "keepsFinite p store (Delete idParam) = True"

fun runKeepsFinite :: "platform \<Rightarrow> StoredLocation list \<Rightarrow> request list \<Rightarrow> bool" where
  "runKeepsFinite p store [] = True"
| "runKeepsFinite p store (q # rs) =
     (keepsFinite p store q \<and> runKeepsFinite p (snd (serve p store q)) rs)"

section \<open>A platform for the closed examples\<close>

text \<open>
  The general theorems hold for every platform. The closed examples need one to
  compute with; \<open>js\<close> stands in for the real built-ins and agrees with them on
  these arguments, the only ones the examples use:
  \<^item> \<open>parseInt\<close> of a finite number that is zero or at least \<open>10^-6\<close> and below
    \<open>10^21\<close> in size: the number without its fraction (2 for 2.5); of a string
    that begins with one to fifteen decimal digits, not with \<open>0x\<close>: the integer
    these digits write (2 for \<open>2abc\<close>); of the empty string and of a string that
    begins with an ASCII letter: NaN; of \<open>null\<close>, \<open>undefined\<close>, a boolean, NaN or
    an infinity: NaN;
  \<^item> \<open>parseFloat\<close> of a number: the number itself (its shortest decimal form reads
    back as the same double); of \<open>null\<close>, \<open>undefined\<close>, a boolean or an object: NaN;
  \<^item> \<open>trim\<close> of an ASCII string: the string without the spaces, tabs and line
    breaks at its two ends;
  \<^item> \<open>toLowerCase\<close> of an ASCII string;
  \<^item> \<open>new Date(s)\<close> for a calendar date \<open>YYYY-MM-DD\<close> that exists: midnight UTC of
    that day, in milliseconds since 1970-01-01.
  \<^item> all three conversions of an object: a TypeError when the object has a property
    \<open>toString\<close> of its own (no JSON value is callable, and the inherited
    \<open>valueOf\<close> returns the object), NaN read from \<open>[object Object]\<close> when it has
    none.
  Elsewhere \<open>js\<close> answers NaN (or leaves the character alone) and does not throw,
  which is not claimed to be what the built-in does there.
\<close>

definition isDigit :: "char \<Rightarrow> bool" where
  "isDigit c = (48 \<le> (of_char c :: nat) \<and> (of_char c :: nat) \<le> 57)"

definition digitsValue :: "string \<Rightarrow> int" where
  "digitsValue s = foldl (\<lambda>a c. 10 * a + (int (of_char c) - 48)) 0 s"

definition isSpace :: "char \<Rightarrow> bool" where
  "isSpace c = ((of_char c :: nat) \<in> {9, 10, 11, 12, 13, 32})"

definition lowerChar :: "char \<Rightarrow> char" where
  "lowerChar c =
     (case map_of (zip ''ABCDEFGHIJKLMNOPQRSTUVWXYZ'' ''abcdefghijklmnopqrstuvwxyz'') c of
        Some l \<Rightarrow> l
      | None \<Rightarrow> c)"

definition daysInMonth :: "int \<Rightarrow> int \<Rightarrow> int" where
  "daysInMonth y m =
     (if m = 2 then (if y mod 4 = 0 \<and> (y mod 100 \<noteq> 0 \<or> y mod 400 = 0) then 29 else 28)
      else if m \<in> {4, 6, 9, 11} then 30 else 31)"

text \<open>The number of days from 1970-01-01 to the day \<open>d\<close> of month \<open>m\<close> of year \<open>y\<close>
  in the Gregorian calendar, counting years from March.\<close>

definition daysFromCivil :: "int \<Rightarrow> int \<Rightarrow> int \<Rightarrow> int" where
  "daysFromCivil y m d =
     (let y' = (if m \<le> 2 then y - 1 else y);
          era = y' div 400;
          yoe = y' - era * 400;
          doy = (153 * (if m > 2 then m - 3 else m + 9) + 2) div 5 + d - 1;
          doe = yoe * 365 + yoe div 4 - yoe div 100 + doy
      in era * 146097 + doe - 719468)"

definition isoDate :: "string \<Rightarrow> int option" where
  "isoDate s =
     (if length s = 10 \<and> s ! 4 = CHR ''-'' \<and> s ! 7 = CHR ''-'' \<and>
         list_all isDigit (take 4 s @ take 2 (drop 5 s) @ drop 8 s)
      then
        let y = digitsValue (take 4 s); m = digitsValue (take 2 (drop 5 s));
            d = digitsValue (drop 8 s)
        in if 1 \<le> m \<and> m \<le> 12 \<and> 1 \<le> d \<and> d \<le> daysInMonth y m
           then Some (daysFromCivil y m d * 86400000) else None
      else None)"

text \<open>\<open>parseInt\<close> reads the integer a text begins with. A number is first written
  out: in plain decimal notation when it is zero or at least \<open>10^-6\<close> and below
  \<open>10^21\<close> in size, so that what is read is the number without its fraction.\<close>

definition leadingDigits :: "string \<Rightarrow> string" where
  "leadingDigits s = takeWhile isDigit s"

definition hexPrefix :: "string \<Rightarrow> bool" where
  "hexPrefix s = (take 2 s = ''0x'' \<or> take 2 s = ''0X'')"

definition js_parseInt :: "jsval \<Rightarrow> jsnum" where
  "js_parseInt v =
     (case v of
        JNum (Fin x) \<Rightarrow>
          if \<bar>x\<bar> < 10 ^ 21 \<and> (x = 0 \<or> 1 / 10 ^ 6 \<le> \<bar>x\<bar>)
          then Fin (of_int (if 0 \<le> x then \<lfloor>x\<rfloor> else \<lceil>x\<rceil>)) else NaN
      | JStr s \<Rightarrow>
          if leadingDigits s \<noteq> [] \<and> length (leadingDigits s) \<le> 15 \<and> \<not> hexPrefix s
          then Fin (of_int (digitsValue (leadingDigits s))) else NaN
      | _ \<Rightarrow> NaN)"

definition js_parseFloat :: "jsval \<Rightarrow> jsnum" where
  "js_parseFloat v = (case v of JNum n \<Rightarrow> n | _ \<Rightarrow> NaN)"

definition js_trim :: "string \<Rightarrow> string" where
  "js_trim s = rev (dropWhile isSpace (rev (dropWhile isSpace s)))"

definition js_toLowerCase :: "string \<Rightarrow> string" where
  "js_toLowerCase s = map lowerChar s"

definition js_getTime :: "jsval \<Rightarrow> jsnum" where
  "js_getTime v =
     (case v of
        JStr s \<Rightarrow> (case isoDate s of Some t \<Rightarrow> Fin (of_int t) | None \<Rightarrow> NaN)
      | _ \<Rightarrow> NaN)"

definition throwsOnConversion :: "jsval \<Rightarrow> bool" where
  "throwsOnConversion v = (case v of JObj m \<Rightarrow> ''toString'' |\<in>| fmdom m | _ \<Rightarrow> False)"

definition js :: platform where
  "js = \<lparr> parseInt = (\<lambda>v. if throwsOnConversion v then None else Some (js_parseInt v)),
          parseFloat = (\<lambda>v. if throwsOnConversion v then None else Some (js_parseFloat v)),
          trim = js_trim, toLowerCase = js_toLowerCase,
          getTime = (\<lambda>v. if throwsOnConversion v then None else Some (js_getTime v)) \<rparr>"

section \<open>Data of the closed examples\<close>

text \<open>An overlay with the bounds of the spec's scenario, a location on its corner,
  and an overlay whose longitudes are the wrong way round.\<close>

definition overlay1 :: MapOverlay where
  "overlay1 = \<lparr> MapOverlay.id' = 1, name = ''Antelope Valley'', address = ''California, USA'',
     imageUrl = ''/mask.svg'', startDate = Some ''2024-04-01'', endDate = Some ''2024-09-30'',
     reportUrl = ''/exp.pdf'', chartUrls = [],
     bounds = \<lparr> minLon = Fin (-118.44), maxLon = Fin (-118.38),
                minLat = Fin 34.764, maxLat = Fin 34.88 \<rparr> \<rparr>"

definition location1 :: Location where
  "location1 = \<lparr> Location.id' = 1, speciesId = 1, locationName = ''Corner'',
     coordinates = (Fin (-118.44), Fin 34.764),
     bloomingPeriod = \<lparr> start = ''2024-02-01'', peak = ''2024-02-15'', end' = ''2024-03-15'' \<rparr> \<rparr>"

definition overlayBad :: MapOverlay where
  "overlayBad = overlay1 \<lparr> bounds := \<lparr> minLon = Fin 5, maxLon = Fin 1,
                minLat = Fin 0, maxLat = Fin 10 \<rparr> \<rparr>"

text \<open>The payload of the spec's scenario and the record it becomes under id \<open>n\<close>;
  payloads that fail one check each, or pass the checks with a value that does not
  convert; request bodies for \<open>PUT\<close>; a panel with a search typed in.\<close>

definition period :: "string \<Rightarrow> string \<Rightarrow> string \<Rightarrow> jsval" where
  "period s p e = JObj (fmap_of_list [(''start'', JStr s), (''peak'', JStr p), (''end'', JStr e)])"

definition payload4 :: jsval where
  "payload4 = JObj (fmap_of_list
     [(''speciesId'', JNum (Fin 2)),
      (''locationName'', JStr '' Test Garden ''),
      (''coordinates'', JArr [JNum (Fin 106.7), JNum (Fin 10.78)]),
      (''bloomingPeriod'', period ''2024-03-01'' ''2024-03-15'' ''2024-04-01'')])"

definition created :: "int \<Rightarrow> StoredLocation" where
  "created n = \<lparr> StoredLocation.id' = n,
     props = fmap_of_list
       [(''speciesId'', JNum (Fin 2)),
        (''locationName'', JStr ''Test Garden''),
        (''coordinates'', JArr [JNum (Fin 106.7), JNum (Fin 10.78)]),
        (''bloomingPeriod'', period ''2024-03-01'' ''2024-03-15'' ''2024-04-01'')] \<rparr>"

definition payload :: "jsval \<Rightarrow> jsval \<Rightarrow> jsval \<Rightarrow> jsval \<Rightarrow> jsval" where
  "payload sid nm coords bp = JObj (fmap_of_list
     [(''speciesId'', sid), (''locationName'', nm), (''coordinates'', coords),
      (''bloomingPeriod'', bp)])"

definition payloadBadOrder :: jsval where
  "payloadBadOrder = payload (JNum (Fin 2)) (JStr '' Test Garden '')
     (JArr [JNum (Fin 106.7), JNum (Fin 10.78)])
     (period ''2024-03-15'' ''2024-03-01'' ''2024-04-01'')"

definition payloadNoSpecies :: jsval where
  "payloadNoSpecies = JObj (fmap_of_list
     [(''locationName'', JStr '' Test Garden ''),
      (''coordinates'', JArr [JNum (Fin 106.7), JNum (Fin 10.78)]),
      (''bloomingPeriod'', period ''2024-03-15'' ''2024-03-01'' ''2024-04-01'')])"

definition payloadSameDay :: jsval where
  "payloadSameDay = payload (JNum (Fin 2)) (JStr ''Test Garden'')
     (JArr [JNum (Fin 106.7), JNum (Fin 10.78)])
     (period ''2024-03-15'' ''2024-03-15'' ''2024-03-15'')"

definition payloadNullCoords :: jsval where
  "payloadNullCoords = payload (JNum (Fin 2)) (JStr ''Test Garden'')
     (JArr [JNull, JNull])
     (period ''2024-03-01'' ''2024-03-15'' ''2024-04-01'')"

definition payloadNumberName :: jsval where
  "payloadNumberName = payload (JNum (Fin 2)) (JNum (Fin 5))
     (JArr [JNum (Fin 106.7), JNum (Fin 10.78)])
     (period ''2024-03-01'' ''2024-03-15'' ''2024-04-01'')"

definition patchCoordinates :: "(string, jsval) fmap" where
  "patchCoordinates = fmap_of_list [(''id'', JNum (Fin 1)), (''coordinates'', JStr ''x'')]"

definition patchRefused :: "(string, jsval) fmap" where
  "patchRefused = fmap_of_list [(''id'', JNum (Fin 99)), (''coordinates'', JStr ''x'')]"

definition patchDates :: "(string, jsval) fmap" where
  "patchDates = fmap_of_list
     [(''id'', JStr ''2''),
      (''bloomingPeriod'', period ''2024-03-15'' ''2024-03-01'' ''2024-04-01'')]"

definition overlay2 :: MapOverlay where
  "overlay2 = overlay1 \<lparr> MapOverlay.id' := 2, name := ''Carrizo Plain National Monument'' \<rparr>"

definition panelSearching :: panel where
  "panelSearching = \<lparr> allOverlays = [overlay1, overlay2], allLocations = [location1],
     selectedOverlayIds = [], searchQuery = ''carrizo'' \<rparr>"

definition payloadThreeCoords :: jsval where
  "payloadThreeCoords = payload (JNum (Fin 2)) (JStr ''Test Garden'')
     (JArr [JNum (Fin 106.7), JNum (Fin 10.78), JNum (Fin 0)])
     (period ''2024-03-15'' ''2024-03-01'' ''2024-04-01'')"

definition payloadNoPeak :: jsval where
  "payloadNoPeak = payload (JNum (Fin 2)) (JStr ''Test Garden'')
     (JArr [JNum (Fin 106.7), JNum (Fin 10.78)])
     (JObj (fmap_of_list [(''start'', JStr ''2024-03-15''), (''end'', JStr ''2024-03-01'')]))"

definition payloadObjectSpecies :: jsval where
  "payloadObjectSpecies = payload (JObj (fmap_of_list [(''toString'', JNum (Fin 1))]))
     (JStr ''Test Garden'')
     (JArr [JNum (Fin 106.7), JNum (Fin 10.78)])
     (period ''2024-03-01'' ''2024-03-15'' ''2024-04-01'')"

definition payloadTextSpecies :: jsval where
  "payloadTextSpecies = payload (JStr ''abc'') (JStr ''Test Garden'')
     (JArr [JNum (Fin 106.7), JNum (Fin 10.78)])
     (period ''2024-03-01'' ''2024-03-15'' ''2024-04-01'')"

definition patchZero :: "(string, jsval) fmap" where
  "patchZero = fmap_of_list [(''id'', JNum (Fin 0)), (''locationName'', JStr ''Moved'')]"

definition patchFraction :: "(string, jsval) fmap" where
  "patchFraction = fmap_of_list [(''id'', JNum (Fin 2.5)), (''locationName'', JStr ''Moved'')]"

definition patchObjectId :: "(string, jsval) fmap" where
  "patchObjectId = fmap_of_list
     [(''id'', JObj (fmap_of_list [(''toString'', JNum (Fin 1))])),
      (''locationName'', JStr ''Moved'')]"

definition patchUnknownId :: "(string, jsval) fmap" where
  "patchUnknownId = fmap_of_list [(''id'', JNum (Fin 99)), (''locationName'', JStr ''Nowhere'')]"

section \<open>Bounds containment\<close>

lemma js_ge_le: "js_ge a b = js_le b a"
  by (simp add: js_ge_def js_le_def)

lemma js_le_Fin [simp]: "js_le (Fin x) (Fin y) = (x \<le> y)"
  by (auto simp: js_le_def)

lemma js_le_trans: "js_le a b \<Longrightarrow> js_le b c \<Longrightarrow> js_le a c"
  by (cases a; cases b; cases c) (auto simp: js_le_def)

lemma js_gt_not_le: "js_gt a b \<Longrightarrow> \<not> js_le a b"
  by (cases a; cases b) (auto simp: js_le_def js_gt_def)

lemma isLocationInOverlay_contains:
  "isLocationInOverlay location overlay = contains (coordinates location) (bounds overlay)"
  by (auto simp: isLocationInOverlay_def contains_def js_ge_le split: prod.splits)

lemma js_le_refl: "js_le a b \<Longrightarrow> js_le a a \<and> js_le b b"
  by (cases a; cases b) (auto simp: js_le_def)

lemma isLocationInOverlay_iff:
  "isLocationInOverlay location overlay \<longleftrightarrow>
     js_le (minLon (bounds overlay)) (fst (coordinates location)) \<and>
     js_le (fst (coordinates location)) (maxLon (bounds overlay)) \<and>
     js_le (minLat (bounds overlay)) (snd (coordinates location)) \<and>
     js_le (snd (coordinates location)) (maxLat (bounds overlay))"
  by (simp add: isLocationInOverlay_def js_ge_le split: prod.splits)

text \<open>
  Claim C5. For every point and every box, \<open>isLocationInOverlay\<close> holds iff
  \<open>minLon <= lon <= maxLon\<close> and \<open>minLat <= lat <= maxLat\<close>, with JavaScript's
  \<open><=\<close>; on finite numbers that is the order of the reals. The test is inclusive:
  the four corners of a box with \<open>min <= max\<close> on both axes are contained. In a box
  with \<open>min > max\<close> on an axis no point is contained. The function is total and has
  no failure among its results: it raises nothing.
\<close>

theorem bounds_containment:
  "(isLocationInOverlay location overlay \<longleftrightarrow>
      js_le (minLon (bounds overlay)) (fst (coordinates location)) \<and>
      js_le (fst (coordinates location)) (maxLon (bounds overlay)) \<and>
      js_le (minLat (bounds overlay)) (snd (coordinates location)) \<and>
      js_le (snd (coordinates location)) (maxLat (bounds overlay))) \<and>
   (isLocationInOverlay (location\<lparr>coordinates := (Fin x, Fin y)\<rparr>)
      (overlay\<lparr>bounds := \<lparr>minLon = Fin a, maxLon = Fin b, minLat = Fin c, maxLat = Fin d\<rparr>\<rparr>)
      \<longleftrightarrow> a \<le> x \<and> x \<le> b \<and> c \<le> y \<and> y \<le> d) \<and>
   (js_le (minLon (bounds overlay)) (maxLon (bounds overlay)) \<and>
    js_le (minLat (bounds overlay)) (maxLat (bounds overlay)) \<longrightarrow>
      isLocationInOverlay
        (location\<lparr>coordinates := (minLon (bounds overlay), minLat (bounds overlay))\<rparr>) overlay \<and>
      isLocationInOverlay
        (location\<lparr>coordinates := (minLon (bounds overlay), maxLat (bounds overlay))\<rparr>) overlay \<and>
      isLocationInOverlay
        (location\<lparr>coordinates := (maxLon (bounds overlay), minLat (bounds overlay))\<rparr>) overlay \<and>
      isLocationInOverlay
        (location\<lparr>coordinates := (maxLon (bounds overlay), maxLat (bounds overlay))\<rparr>) overlay) \<and>
   (js_gt (minLon (bounds overlay)) (maxLon (bounds overlay)) \<or>
    js_gt (minLat (bounds overlay)) (maxLat (bounds overlay)) \<longrightarrow>
      \<not> isLocationInOverlay location overlay)"
proof (intro conjI impI)
  show "isLocationInOverlay location overlay \<longleftrightarrow>
      js_le (minLon (bounds overlay)) (fst (coordinates location)) \<and>
      js_le (fst (coordinates location)) (maxLon (bounds overlay)) \<and>
      js_le (minLat (bounds overlay)) (snd (coordinates location)) \<and>
      js_le (snd (coordinates location)) (maxLat (bounds overlay))"
    by (rule isLocationInOverlay_iff)
  show "isLocationInOverlay (location\<lparr>coordinates := (Fin x, Fin y)\<rparr>)
      (overlay\<lparr>bounds := \<lparr>minLon = Fin a, maxLon = Fin b, minLat = Fin c, maxLat = Fin d\<rparr>\<rparr>)
      \<longleftrightarrow> a \<le> x \<and> x \<le> b \<and> c \<le> y \<and> y \<le> d"
    by (simp add: isLocationInOverlay_iff)
next
  assume wf: "js_le (minLon (bounds overlay)) (maxLon (bounds overlay)) \<and>
    js_le (minLat (bounds overlay)) (maxLat (bounds overlay))"
  then have r: "js_le (minLon (bounds overlay)) (minLon (bounds overlay))"
    "js_le (maxLon (bounds overlay)) (maxLon (bounds overlay))"
    "js_le (minLat (bounds overlay)) (minLat (bounds overlay))"
    "js_le (maxLat (bounds overlay)) (maxLat (bounds overlay))"
    using js_le_refl by blast+
  show "isLocationInOverlay
        (location\<lparr>coordinates := (minLon (bounds overlay), minLat (bounds overlay))\<rparr>) overlay"
    using wf r by (simp add: isLocationInOverlay_iff)
  show "isLocationInOverlay
        (location\<lparr>coordinates := (minLon (bounds overlay), maxLat (bounds overlay))\<rparr>) overlay"
    using wf r by (simp add: isLocationInOverlay_iff)
  show "isLocationInOverlay
        (location\<lparr>coordinates := (maxLon (bounds overlay), minLat (bounds overlay))\<rparr>) overlay"
    using wf r by (simp add: isLocationInOverlay_iff)
  show "isLocationInOverlay
        (location\<lparr>coordinates := (maxLon (bounds overlay), maxLat (bounds overlay))\<rparr>) overlay"
    using wf r by (simp add: isLocationInOverlay_iff)
next
  assume bad: "js_gt (minLon (bounds overlay)) (maxLon (bounds overlay)) \<or>
    js_gt (minLat (bounds overlay)) (maxLat (bounds overlay))"
  show "\<not> isLocationInOverlay location overlay"
  proof
    assume "isLocationInOverlay location overlay"
    then have "js_le (minLon (bounds overlay)) (maxLon (bounds overlay))"
      and "js_le (minLat (bounds overlay)) (maxLat (bounds overlay))"
      unfolding isLocationInOverlay_iff using js_le_trans by blast+
    with bad show False
      using js_gt_not_le by blast
  qed
qed

theorem bounds_containment_witness:
  "js_le (minLon (bounds overlay1)) (maxLon (bounds overlay1)) \<and>
   js_le (minLat (bounds overlay1)) (maxLat (bounds overlay1)) \<and>
   isLocationInOverlay location1 overlay1 \<and>
   js_gt (minLon (bounds overlayBad)) (maxLon (bounds overlayBad)) \<and>
   \<not> isLocationInOverlay (location1\<lparr>coordinates := (Fin 3, Fin 5)\<rparr>) overlayBad"
  using bounds_containment [of location1 overlay1]
    bounds_containment [of "location1\<lparr>coordinates := (Fin 3, Fin 5)\<rparr>" overlayBad]
  by (simp add: overlay1_def overlayBad_def location1_def js_gt_def)

section \<open>Overlay statistics\<close>

text \<open>
  Claim C6. \<open>overlaysWithStats\<close> returns one entry per overlay, in the order of the
  input. The entry at position \<open>i\<close> is the overlay at position \<open>i\<close> with two more
  fields: \<open>locations\<close>, the input locations that the overlay's bounds contain, in
  their input order (a subsequence of the input), and \<open>locationCount\<close>, the number a
  caller gets by filtering the same locations with the same bounds.
\<close>

theorem overlay_stats:
  "length (overlaysWithStats overlays locs) = length overlays \<and>
   (\<forall>i < length overlays.
      MapOverlay.truncate (overlaysWithStats overlays locs ! i) = overlays ! i \<and>
      locations (overlaysWithStats overlays locs ! i) =
        filter (\<lambda>l. contains (coordinates l) (bounds (overlays ! i))) locs \<and>
      subseq (locations (overlaysWithStats overlays locs ! i)) locs \<and>
      locationCount (overlaysWithStats overlays locs ! i) =
        length (filter (\<lambda>l. contains (coordinates l) (bounds (overlays ! i))) locs))"
  by (simp add: overlaysWithStats_def Let_def isLocationInOverlay_contains
      MapOverlay.truncate_def MapOverlay.extend_def MapOverlayWithStats.fields_def)

theorem overlay_stats_witness:
  "(0::nat) < length [overlay1] \<and>
   locations (overlaysWithStats [overlay1]
      [location1\<lparr>coordinates := (Fin 3, Fin 5)\<rparr>, location1] ! 0) = [location1] \<and>
   locationCount (overlaysWithStats [overlay1]
      [location1\<lparr>coordinates := (Fin 3, Fin 5)\<rparr>, location1] ! 0) = 1"
  using overlay_stats [of "[overlay1]" "[location1\<lparr>coordinates := (Fin 3, Fin 5)\<rparr>, location1]"]
  by (simp add: contains_def overlay1_def location1_def)

section \<open>Select all\<close>

lemma js_simps:
  "parseInt js v = (if throwsOnConversion v then None else Some (js_parseInt v))"
  "parseFloat js v = (if throwsOnConversion v then None else Some (js_parseFloat v))"
  "trim js = js_trim" "toLowerCase js = js_toLowerCase"
  "getTime js v = (if throwsOnConversion v then None else Some (js_getTime v))"
  "throwsOnConversion (JNum n) = False" "throwsOnConversion (JStr s) = False"
  "throwsOnConversion JNull = False"
  by (simp_all add: js_def throwsOnConversion_def)

lemma ids_overlaysWithStats:
  "map MapOverlay.id' (overlaysWithStats os ls) = map MapOverlay.id' os"
  by (simp add: overlaysWithStats_def MapOverlay.extend_def Let_def)

lemma length_overlaysWithStats: "length (overlaysWithStats os ls) = length os"
  by (simp add: overlaysWithStats_def)

text \<open>
  Claim C4, as the code has it. When the selection has as many entries as there are
  overlays, \<open>handleSelectAll\<close> clears it; otherwise the new selection is the ids of all
  overlays, in their order. The search query plays no part: the handler maps over
  \<open>overlaysWithStats\<close>, not over \<open>searchResults\<close>.
\<close>

theorem select_all:
  "handleSelectAll s =
     (if length (selectedOverlayIds s) = length (allOverlays s) then []
      else map MapOverlay.id' (allOverlays s)) \<and>
   handleSelectAll (s\<lparr>searchQuery := q\<rparr>) = handleSelectAll s"
  by (simp add: handleSelectAll_def ids_overlaysWithStats length_overlaysWithStats)

text \<open>
  With \<open>carrizo\<close> typed into the search box only the second of two overlays is listed,
  and Select All selects both: the new selection is not the ids of the filtered list.
\<close>

theorem select_all_counterexample:
  "length (selectedOverlayIds panelSearching) \<noteq> length (allOverlays panelSearching) \<and>
   handleSelectAll panelSearching = [1, 2] \<and>
   map MapOverlay.id' (searchResults js panelSearching) = [2]"
  by (simp add: handleSelectAll_def ids_overlaysWithStats length_overlaysWithStats
      searchResults_def panelSearching_def overlay1_def overlay2_def js_simps js_trim_def
      isSpace_def js_toLowerCase_def lowerChar_def sublist_code(3) overlaysWithStats_def
      MapOverlay.extend_def Let_def)

theorem select_all_witness:
  "handleSelectAll panelSearching = [1, 2] \<and>
   handleSelectAll (panelSearching\<lparr>selectedOverlayIds := [2, 1]\<rparr>) = []"
  using select_all [of panelSearching] select_all [of "panelSearching\<lparr>selectedOverlayIds := [2, 1]\<rparr>"]
  by (simp add: panelSearching_def overlay1_def overlay2_def)

section \<open>The checks of POST\<close>

lemma js_parseInt_values:
  "js_parseInt (JNum (Fin 0)) = Fin 0"
  "js_parseInt (JNum (Fin 1)) = Fin 1"
  "js_parseInt (JNum (Fin 2)) = Fin 2"
  "js_parseInt (JNum (Fin 99)) = Fin 99"
  "js_parseInt (JNum (Fin 2.5)) = Fin 2"
  "js_parseInt (JStr ''2'') = Fin 2"
  "js_parseInt (JStr ''4'') = Fin 4"
  "js_parseInt (JStr ''9'') = Fin 9"
  "js_parseInt (JStr ''99'') = Fin 99"
  "js_parseInt (JStr ''2abc'') = Fin 2"
  "js_parseInt (JStr ''abc'') = NaN"
  by (simp_all add: js_parseInt_def leadingDigits_def hexPrefix_def isDigit_def digitsValue_def)

lemma getTime_js_dates:
  "js_getTime (JStr ''2024-03-01'') = Fin 1709251200000"
  "js_getTime (JStr ''2024-03-15'') = Fin 1710460800000"
  "js_getTime (JStr ''2024-04-01'') = Fin 1711929600000"
  by (simp_all add: js_getTime_def isoDate_def isDigit_def digitsValue_def daysInMonth_def
      daysFromCivil_def)

lemma js_lt_irrefl: "\<not> js_lt t t"
  by (cases t) (simp_all add: js_lt_def)

lemma absentOrFalsy_getProp: "absentOrFalsy v k = (\<not> truthy (getProp v k))"
  by (cases v) (auto simp: absentOrFalsy_def split: option.splits)

lemma missingField_iff:
  "missingField body =
     (\<not> truthy (getProp body ''speciesId'') \<or> \<not> truthy (getProp body ''locationName'') \<or>
      \<not> truthy (getProp body ''coordinates'') \<or> \<not> truthy (getProp body ''bloomingPeriod''))"
  by (simp add: missingField_def absentOrFalsy_getProp)

lemma invalidCoordinates_iff:
  "invalidCoordinates body = (\<not> isArrayOfLength 2 (getProp body ''coordinates''))"
proof (cases "getProp body ''coordinates''")
  case (JArr xs)
  have "(length xs = 2) = (\<exists>a b. xs = [a, b])"
    by (cases xs; cases "tl xs"; cases "tl (tl xs)") auto
  with JArr show ?thesis
    by (auto simp: invalidCoordinates_def split: list.splits)
qed (simp_all add: invalidCoordinates_def)

lemma invalidBloomingPeriod_iff:
  "invalidBloomingPeriod body =
     (\<not> truthy (getProp (getProp body ''bloomingPeriod'') ''start'') \<or>
      \<not> truthy (getProp (getProp body ''bloomingPeriod'') ''peak'') \<or>
      \<not> truthy (getProp (getProp body ''bloomingPeriod'') ''end''))"
  by (simp add: invalidBloomingPeriod_def absentOrFalsy_getProp)

lemma missingField_nullish: "nullish body \<Longrightarrow> missingField body"
  by (cases body) (simp_all add: missingField_iff)

text \<open>
  \<open>POST\<close> is the cascade of the four checks of the spec, behind the failure of a body
  that is \<open>null\<close>, and before the failure of a call that throws.
\<close>

lemma POST_checks:
  "POST p store body =
     (if nullish body then (Inl Unexpected, store)
      else if missingField body then (Inl MissingField, store)
      else if invalidCoordinates body then (Inl InvalidCoordinates, store)
      else if invalidBloomingPeriod body then (Inl InvalidBloomingPeriod, store)
      else if invalidDateOrder p body then (Inl InvalidDateOrder, store)
      else if converts p body
      then (Inr (newLocation p store body), store @ [newLocation p store body])
      else (Inl Unexpected, store))"
  unfolding POST_def missingField_iff invalidCoordinates_iff invalidBloomingPeriod_iff
    invalidDateOrder_def parsedDates_def converts_def normalised_def newLocation_def Let_def
  by (simp split: option.splits jsval.splits)

lemma POST_Inr:
  assumes "POST p store body = (Inr r, store')"
  shows "\<not> nullish body" "\<not> missingField body" "\<not> invalidCoordinates body"
    "\<not> invalidBloomingPeriod body" "\<not> invalidDateOrder p body"
    "converts p body" "r = newLocation p store body" "store' = store @ [r]"
  using assms by (auto simp: POST_checks split: if_splits)

lemma POST_Inl: "POST p store body = (Inl e, store') \<Longrightarrow> store' = store"
  by (auto simp: POST_checks split: if_splits)

lemma id_newLocation [simp]: "StoredLocation.id' (newLocation p store body) = newId store"
  by (simp add: newLocation_def)

lemma id_merged [simp]: "StoredLocation.id' (merged old body) = StoredLocation.id' old"
  by (simp add: merged_def)

lemmas payload_simps = payload_def period_def fmlookup_of_list js_simps getTime_js_dates js_lt_def
  missingField_iff invalidCoordinates_iff invalidBloomingPeriod_iff invalidDateOrder_def
  parsedDates_def converts_def normalised_def

lemma newId_seed: "newId seed = 4"
  by (simp add: newId_def seed_def)

lemma POST_seed_payload4: "POST js seed payload4 = (Inr (created 4), seed @ [created 4])"
  by (simp add: POST_def payload4_def period_def created_def fmlookup_of_list js_simps
      getTime_js_dates js_lt_def newId_seed js_parseInt_values js_parseFloat_def js_trim_def
      isSpace_def Let_def)

lemma POST_payload4:
  "POST js store payload4 = (Inr (created (newId store)), store @ [created (newId store)])"
  by (simp add: POST_checks payload4_def payload_simps newLocation_def created_def
      js_parseInt_values js_parseFloat_def js_trim_def isSpace_def)

text \<open>
  Claim C3, as the code has it. For every payload other than \<open>null\<close> the error
  returned is that of the first check, in the order MissingField, InvalidCoordinates,
  InvalidBloomingPeriod, InvalidDateOrder, whose condition holds, with the store left as
  it was. When no condition holds the record is appended and returned if every call on
  the payload returns; if one throws (\<open>trim\<close> on a name that is no string, a
  conversion of an object that has no primitive value) the answer is the 500 of the
  \<open>catch\<close>. Success is returned only if all four checks pass.
\<close>

theorem validation_order:
  "\<not> nullish body \<Longrightarrow>
   (missingField body \<longrightarrow> POST p store body = (Inl MissingField, store)) \<and>
   (\<not> missingField body \<and> invalidCoordinates body \<longrightarrow>
      POST p store body = (Inl InvalidCoordinates, store)) \<and>
   (\<not> missingField body \<and> \<not> invalidCoordinates body \<and> invalidBloomingPeriod body \<longrightarrow>
      POST p store body = (Inl InvalidBloomingPeriod, store)) \<and>
   (\<not> missingField body \<and> \<not> invalidCoordinates body \<and> \<not> invalidBloomingPeriod body \<and>
    invalidDateOrder p body \<longrightarrow>
      POST p store body = (Inl InvalidDateOrder, store)) \<and>
   (\<not> missingField body \<and> \<not> invalidCoordinates body \<and> \<not> invalidBloomingPeriod body \<and>
    \<not> invalidDateOrder p body \<longrightarrow>
      (if converts p body then \<exists>r. POST p store body = (Inr r, store @ [r])
       else POST p store body = (Inl Unexpected, store))) \<and>
   (\<forall>r store'. POST p store body = (Inr r, store') \<longrightarrow>
      \<not> missingField body \<and> \<not> invalidCoordinates body \<and> \<not> invalidBloomingPeriod body \<and>
      \<not> invalidDateOrder p body)"
proof -
  assume nn: "\<not> nullish body"
  have a: "missingField body \<longrightarrow> POST p store body = (Inl MissingField, store)"
    using nn by (simp add: POST_checks)
  have b: "\<not> missingField body \<and> invalidCoordinates body \<longrightarrow>
      POST p store body = (Inl InvalidCoordinates, store)"
    using nn by (simp add: POST_checks)
  have c: "\<not> missingField body \<and> \<not> invalidCoordinates body \<and> invalidBloomingPeriod body \<longrightarrow>
      POST p store body = (Inl InvalidBloomingPeriod, store)"
    using nn by (simp add: POST_checks)
  have d: "\<not> missingField body \<and> \<not> invalidCoordinates body \<and> \<not> invalidBloomingPeriod body \<and>
    invalidDateOrder p body \<longrightarrow>
      POST p store body = (Inl InvalidDateOrder, store)"
    using nn by (simp add: POST_checks)
  have e: "\<not> missingField body \<and> \<not> invalidCoordinates body \<and> \<not> invalidBloomingPeriod body \<and>
    \<not> invalidDateOrder p body \<longrightarrow>
      (if converts p body then \<exists>r. POST p store body = (Inr r, store @ [r])
       else POST p store body = (Inl Unexpected, store))"
    using nn by (simp add: POST_checks)
  have f: "\<forall>r store'. POST p store body = (Inr r, store') \<longrightarrow>
      \<not> missingField body \<and> \<not> invalidCoordinates body \<and> \<not> invalidBloomingPeriod body \<and>
      \<not> invalidDateOrder p body"
    using POST_Inr(2-5) by blast
  show ?thesis
    by (intro conjI a b c d e f)
qed

text \<open>
  The payload \<open>null\<close> has none of the four fields, and the answer is the 500 of the
  \<open>catch\<close>, not MissingField: reading \<open>body.speciesId\<close> throws.
\<close>

theorem validation_order_counterexample:
  "missingField JNull \<and> POST js seed JNull = (Inl Unexpected, seed)"
  by (simp add: missingField_def absentOrFalsy_def POST_def)

theorem validation_order_witness:
  "POST js seed (JObj fmempty) = (Inl MissingField, seed) \<and>
   POST js seed payloadThreeCoords = (Inl InvalidCoordinates, seed) \<and>
   POST js seed payloadNoPeak = (Inl InvalidBloomingPeriod, seed) \<and>
   POST js seed payloadBadOrder = (Inl InvalidDateOrder, seed) \<and>
   \<not> converts js payloadNumberName \<and>
   POST js seed payloadNumberName = (Inl Unexpected, seed) \<and>
   \<not> converts js payloadObjectSpecies \<and>
   POST js seed payloadObjectSpecies = (Inl Unexpected, seed) \<and>
   converts js payload4 \<and>
   (\<exists>r. POST js seed payload4 = (Inr r, seed @ [r])) \<and>
   \<not> missingField payload4 \<and> \<not> invalidCoordinates payload4 \<and>
   \<not> invalidBloomingPeriod payload4 \<and> \<not> invalidDateOrder js payload4"
  using validation_order [where body = "JObj fmempty" and p = js and store = seed]
    validation_order [where body = payloadThreeCoords and p = js and store = seed]
    validation_order [where body = payloadNoPeak and p = js and store = seed]
    validation_order [where body = payloadBadOrder and p = js and store = seed]
    validation_order [where body = payloadNumberName and p = js and store = seed]
    validation_order [where body = payloadObjectSpecies and p = js and store = seed]
    validation_order [where body = payload4 and p = js and store = seed]
  by (simp add: payloadThreeCoords_def payloadNoPeak_def payloadBadOrder_def
      payloadNumberName_def payloadObjectSpecies_def payload4_def payload_simps
      throwsOnConversion_def)

text \<open>
  Claim C2, as the code has it. A payload that passes the three earlier checks and
  whose parsed dates have \<open>peak < start\<close> or \<open>end < peak\<close> is refused with
  InvalidDateOrder and the store is unchanged. The comparison is strict: when the three
  dates parse to the same time value the condition is false and \<open>POST\<close> does not
  answer InvalidDateOrder.
\<close>

theorem date_order_rejected:
  "(\<not> missingField body \<and> \<not> invalidCoordinates body \<and> \<not> invalidBloomingPeriod body \<and>
    invalidDateOrder p body \<longrightarrow> POST p store body = (Inl InvalidDateOrder, store)) \<and>
   (getTime p (getProp (getProp body ''bloomingPeriod'') ''start'') =
      getTime p (getProp (getProp body ''bloomingPeriod'') ''peak'') \<and>
    getTime p (getProp (getProp body ''bloomingPeriod'') ''peak'') =
      getTime p (getProp (getProp body ''bloomingPeriod'') ''end'') \<longrightarrow>
      \<not> invalidDateOrder p body \<and> fst (POST p store body) \<noteq> Inl InvalidDateOrder)"
proof (intro conjI impI)
  assume "\<not> missingField body \<and> \<not> invalidCoordinates body \<and> \<not> invalidBloomingPeriod body \<and>
    invalidDateOrder p body"
  then show "POST p store body = (Inl InvalidDateOrder, store)"
    using missingField_nullish [of body] by (auto simp: POST_checks)
next
  assume eq: "getTime p (getProp (getProp body ''bloomingPeriod'') ''start'') =
      getTime p (getProp (getProp body ''bloomingPeriod'') ''peak'') \<and>
    getTime p (getProp (getProp body ''bloomingPeriod'') ''peak'') =
      getTime p (getProp (getProp body ''bloomingPeriod'') ''end'')"
  then show ok: "\<not> invalidDateOrder p body"
    by (simp add: invalidDateOrder_def parsedDates_def js_lt_irrefl split: option.splits)
  then show "fst (POST p store body) \<noteq> Inl InvalidDateOrder"
    by (simp add: POST_checks)
qed

text \<open>
  The dates of the spec's second scenario in a payload without \<open>speciesId\<close>: the
  date-order condition holds and the answer is MissingField.
\<close>

theorem date_order_rejected_counterexample:
  "invalidDateOrder js payloadNoSpecies \<and>
   POST js seed payloadNoSpecies = (Inl MissingField, seed)"
  by (simp add: POST_checks payloadNoSpecies_def payload_simps)

theorem date_order_rejected_witness:
  "\<not> missingField payloadBadOrder \<and> \<not> invalidCoordinates payloadBadOrder \<and>
   \<not> invalidBloomingPeriod payloadBadOrder \<and> invalidDateOrder js payloadBadOrder \<and>
   POST js seed payloadBadOrder = (Inl InvalidDateOrder, seed) \<and>
   getTime js (getProp (getProp payloadSameDay ''bloomingPeriod'') ''start'') =
     getTime js (getProp (getProp payloadSameDay ''bloomingPeriod'') ''peak'') \<and>
   getTime js (getProp (getProp payloadSameDay ''bloomingPeriod'') ''peak'') =
     getTime js (getProp (getProp payloadSameDay ''bloomingPeriod'') ''end'') \<and>
   fst (POST js seed payloadSameDay) \<noteq> Inl InvalidDateOrder"
  using date_order_rejected [where body = payloadBadOrder and p = js and store = seed]
    date_order_rejected [where body = payloadSameDay and p = js and store = seed]
  by (simp add: payloadBadOrder_def payloadSameDay_def payload_simps)

section \<open>Normalisation on success\<close>

lemma normalised_Some:
  "normalised p body = Some np \<Longrightarrow>
   \<exists>sid nm lon lat.
     parseInt p (getProp body ''speciesId'') = Some sid \<and>
     getProp body ''locationName'' = JStr nm \<and>
     parseFloat p (elem (getProp body ''coordinates'') 0) = Some lon \<and>
     parseFloat p (elem (getProp body ''coordinates'') 1) = Some lat \<and>
     fmlookup np ''speciesId'' = Some (JNum sid) \<and>
     fmlookup np ''locationName'' = Some (JStr (trim p nm)) \<and>
     fmlookup np ''coordinates'' = Some (JArr [JNum lon, JNum lat]) \<and>
     fmlookup np ''bloomingPeriod'' = Some (JObj (fmap_of_list
       [(''start'', getProp (getProp body ''bloomingPeriod'') ''start''),
        (''peak'', getProp (getProp body ''bloomingPeriod'') ''peak''),
        (''end'', getProp (getProp body ''bloomingPeriod'') ''end'')]))"
proof -
  assume np: "normalised p body = Some np"
  then obtain sid nm lon lat where
    a: "parseInt p (getProp body ''speciesId'') = Some sid"
      "getProp body ''locationName'' = JStr nm"
      "parseFloat p (elem (getProp body ''coordinates'') 0) = Some lon"
      "parseFloat p (elem (getProp body ''coordinates'') 1) = Some lat"
    by (cases "parseInt p (getProp body ''speciesId'')"; cases "getProp body ''locationName''";
        cases "parseFloat p (elem (getProp body ''coordinates'') 0)";
        cases "parseFloat p (elem (getProp body ''coordinates'') 1)")
       (simp_all add: normalised_def)
  with np have "np = fmap_of_list
      [(''speciesId'', JNum sid),
       (''locationName'', JStr (trim p nm)),
       (''coordinates'', JArr [JNum lon, JNum lat]),
       (''bloomingPeriod'',
          JObj (fmap_of_list
            [(''start'', getProp (getProp body ''bloomingPeriod'') ''start''),
             (''peak'', getProp (getProp body ''bloomingPeriod'') ''peak''),
             (''end'', getProp (getProp body ''bloomingPeriod'') ''end'')]))]"
    by (simp add: normalised_def)
  with a show ?thesis
    by (simp add: fmlookup_of_list)
qed

lemma field_newLocation:
  assumes "converts p body"
  shows "\<exists>sid nm lon lat.
     parseInt p (getProp body ''speciesId'') = Some sid \<and>
     getProp body ''locationName'' = JStr nm \<and>
     parseFloat p (elem (getProp body ''coordinates'') 0) = Some lon \<and>
     parseFloat p (elem (getProp body ''coordinates'') 1) = Some lat \<and>
     field (newLocation p store body) ''speciesId'' = JNum sid \<and>
     field (newLocation p store body) ''locationName'' = JStr (trim p nm) \<and>
     field (newLocation p store body) ''coordinates'' = JArr [JNum lon, JNum lat] \<and>
     field (newLocation p store body) ''bloomingPeriod'' = JObj (fmap_of_list
       [(''start'', getProp (getProp body ''bloomingPeriod'') ''start''),
        (''peak'', getProp (getProp body ''bloomingPeriod'') ''peak''),
        (''end'', getProp (getProp body ''bloomingPeriod'') ''end'')])"
proof -
  from assms obtain np where np: "normalised p body = Some np"
    by (auto simp: converts_def)
  from normalised_Some [OF np] obtain sid nm lon lat where
    "parseInt p (getProp body ''speciesId'') = Some sid"
    "getProp body ''locationName'' = JStr nm"
    "parseFloat p (elem (getProp body ''coordinates'') 0) = Some lon"
    "parseFloat p (elem (getProp body ''coordinates'') 1) = Some lat"
    "fmlookup np ''speciesId'' = Some (JNum sid)"
    "fmlookup np ''locationName'' = Some (JStr (trim p nm))"
    "fmlookup np ''coordinates'' = Some (JArr [JNum lon, JNum lat])"
    "fmlookup np ''bloomingPeriod'' = Some (JObj (fmap_of_list
       [(''start'', getProp (getProp body ''bloomingPeriod'') ''start''),
        (''peak'', getProp (getProp body ''bloomingPeriod'') ''peak''),
        (''end'', getProp (getProp body ''bloomingPeriod'') ''end'')]))"
    by blast
  then show ?thesis
    by (simp add: field_def newLocation_def np)
qed

lemma not_invalidCoordinates:
  "\<not> invalidCoordinates body \<Longrightarrow>
   \<exists>a b. getProp body ''coordinates'' = JArr [a, b] \<and>
     elem (getProp body ''coordinates'') 0 = a \<and> elem (getProp body ''coordinates'') 1 = b"
  by (auto simp: invalidCoordinates_def split: jsval.splits list.splits)

lemma POST_normalises:
  "POST p store body = (Inr r, store') \<Longrightarrow>
   store' = store @ [r] \<and>
   \<not> missingField body \<and> \<not> invalidCoordinates body \<and>
   \<not> invalidBloomingPeriod body \<and> \<not> invalidDateOrder p body \<and>
   (\<exists>sid. parseInt p (getProp body ''speciesId'') = Some sid \<and>
      field r ''speciesId'' = JNum sid) \<and>
   (\<exists>s. getProp body ''locationName'' = JStr s \<and> field r ''locationName'' = JStr (trim p s)) \<and>
   (\<exists>a b lon lat. getProp body ''coordinates'' = JArr [a, b] \<and>
      parseFloat p a = Some lon \<and> parseFloat p b = Some lat \<and>
      field r ''coordinates'' = JArr [JNum lon, JNum lat]) \<and>
   getProp (field r ''bloomingPeriod'') ''start'' = getProp (getProp body ''bloomingPeriod'') ''start'' \<and>
   getProp (field r ''bloomingPeriod'') ''peak'' = getProp (getProp body ''bloomingPeriod'') ''peak'' \<and>
   getProp (field r ''bloomingPeriod'') ''end'' = getProp (getProp body ''bloomingPeriod'') ''end''"
proof -
  assume post: "POST p store body = (Inr r, store')"
  have r: "r = newLocation p store body"
    by (rule POST_Inr(7) [OF post])
  from field_newLocation [OF POST_Inr(6) [OF post], of store] obtain sid nm lon lat where
    f: "parseInt p (getProp body ''speciesId'') = Some sid"
      "getProp body ''locationName'' = JStr nm"
      "parseFloat p (elem (getProp body ''coordinates'') 0) = Some lon"
      "parseFloat p (elem (getProp body ''coordinates'') 1) = Some lat"
      "field r ''speciesId'' = JNum sid"
      "field r ''locationName'' = JStr (trim p nm)"
      "field r ''coordinates'' = JArr [JNum lon, JNum lat]"
      "field r ''bloomingPeriod'' = JObj (fmap_of_list
         [(''start'', getProp (getProp body ''bloomingPeriod'') ''start''),
          (''peak'', getProp (getProp body ''bloomingPeriod'') ''peak''),
          (''end'', getProp (getProp body ''bloomingPeriod'') ''end'')])"
    unfolding r by blast
  from not_invalidCoordinates [OF POST_Inr(3) [OF post]] obtain a b where
    ab: "getProp body ''coordinates'' = JArr [a, b]"
      "elem (getProp body ''coordinates'') 0 = a" "elem (getProp body ''coordinates'') 1 = b"
    by blast
  have sp: "\<exists>sid. parseInt p (getProp body ''speciesId'') = Some sid \<and>
      field r ''speciesId'' = JNum sid"
    using f(1,5) by blast
  have name: "\<exists>s. getProp body ''locationName'' = JStr s \<and> field r ''locationName'' = JStr (trim p s)"
    using f(2,6) by blast
  have coords: "\<exists>a b lon lat. getProp body ''coordinates'' = JArr [a, b] \<and>
      parseFloat p a = Some lon \<and> parseFloat p b = Some lat \<and>
      field r ''coordinates'' = JArr [JNum lon, JNum lat]"
    using ab f(3,4,7) by metis
  have dates:
    "getProp (field r ''bloomingPeriod'') ''start'' = getProp (getProp body ''bloomingPeriod'') ''start''"
    "getProp (field r ''bloomingPeriod'') ''peak'' = getProp (getProp body ''bloomingPeriod'') ''peak''"
    "getProp (field r ''bloomingPeriod'') ''end'' = getProp (getProp body ''bloomingPeriod'') ''end''"
    by (simp_all add: f(8) fmlookup_of_list)
  show ?thesis
    by (intro conjI POST_Inr(8) [OF post] POST_Inr(2) [OF post] POST_Inr(3) [OF post]
        POST_Inr(4) [OF post] POST_Inr(5) [OF post] sp name coords dates)
qed

lemma js_parseInt_integer: "js_parseInt v = Fin x \<Longrightarrow> \<exists>k. x = of_int k"
  by (auto simp: js_parseInt_def split: jsval.splits jsnum.splits if_splits)

text \<open>
  Claim C7, as the code has it. A payload that passes the four checks is stored when,
  in addition, every call on it returns (\<open>locationName\<close> is a string and no conversion
  throws): \<open>POST\<close> then appends a record and returns it; when a call throws, the
  answer is the 500 of the handler's \<open>catch\<close> and the store is left as it was. Whenever \<open>POST\<close> returns a
  record, all of that holds of the payload, the record is the one appended, its
  \<open>locationName\<close> is the payload's string trimmed, its \<open>coordinates\<close> are the two
  numbers that \<open>parseFloat\<close> reads from the payload's two elements, the three dates of
  its blooming period are the payload's values, unchanged, and its \<open>speciesId\<close> is the
  number that \<open>parseInt\<close> reads from the payload's when that is a finite number (the
  built-in reads no finite number but an integer, and so does the stand-in, lemma
  \<open>js_parseInt_integer\<close>). Nothing is stated about the
  \<open>speciesId\<close> stored when the payload's does not read as a number.
\<close>

theorem create_normalises:
  "(\<not> missingField body \<and> \<not> invalidCoordinates body \<and> \<not> invalidBloomingPeriod body \<and>
    \<not> invalidDateOrder p body \<and> converts p body \<longrightarrow>
      (\<exists>r. POST p store body = (Inr r, store @ [r]))) \<and>
   (\<not> missingField body \<and> \<not> invalidCoordinates body \<and> \<not> invalidBloomingPeriod body \<and>
    \<not> invalidDateOrder p body \<and> \<not> converts p body \<longrightarrow>
      POST p store body = (Inl Unexpected, store)) \<and>
   (POST p store body = (Inr r, store') \<longrightarrow>
      store' = store @ [r] \<and>
      \<not> missingField body \<and> \<not> invalidCoordinates body \<and>
      \<not> invalidBloomingPeriod body \<and> \<not> invalidDateOrder p body \<and> converts p body \<and>
      (\<forall>x. parseInt p (getProp body ''speciesId'') = Some (Fin x) \<longrightarrow>
         field r ''speciesId'' = JNum (Fin x)) \<and>
      (\<exists>s. getProp body ''locationName'' = JStr s \<and>
         field r ''locationName'' = JStr (trim p s)) \<and>
      (\<exists>a b lon lat. getProp body ''coordinates'' = JArr [a, b] \<and>
         parseFloat p a = Some lon \<and> parseFloat p b = Some lat \<and>
         field r ''coordinates'' = JArr [JNum lon, JNum lat]) \<and>
      getProp (field r ''bloomingPeriod'') ''start'' =
        getProp (getProp body ''bloomingPeriod'') ''start'' \<and>
      getProp (field r ''bloomingPeriod'') ''peak'' =
        getProp (getProp body ''bloomingPeriod'') ''peak'' \<and>
      getProp (field r ''bloomingPeriod'') ''end'' =
        getProp (getProp body ''bloomingPeriod'') ''end'')"
proof (intro conjI)
  show "\<not> missingField body \<and> \<not> invalidCoordinates body \<and> \<not> invalidBloomingPeriod body \<and>
    \<not> invalidDateOrder p body \<and> converts p body \<longrightarrow>
      (\<exists>r. POST p store body = (Inr r, store @ [r]))"
    using missingField_nullish [of body] by (auto simp: POST_checks)
next
  show "\<not> missingField body \<and> \<not> invalidCoordinates body \<and> \<not> invalidBloomingPeriod body \<and>
    \<not> invalidDateOrder p body \<and> \<not> converts p body \<longrightarrow>
      POST p store body = (Inl Unexpected, store)"
    using missingField_nullish [of body] by (simp add: POST_checks)
next
  show "POST p store body = (Inr r, store') \<longrightarrow>
      store' = store @ [r] \<and>
      \<not> missingField body \<and> \<not> invalidCoordinates body \<and>
      \<not> invalidBloomingPeriod body \<and> \<not> invalidDateOrder p body \<and> converts p body \<and>
      (\<forall>x. parseInt p (getProp body ''speciesId'') = Some (Fin x) \<longrightarrow>
         field r ''speciesId'' = JNum (Fin x)) \<and>
      (\<exists>s. getProp body ''locationName'' = JStr s \<and>
         field r ''locationName'' = JStr (trim p s)) \<and>
      (\<exists>a b lon lat. getProp body ''coordinates'' = JArr [a, b] \<and>
         parseFloat p a = Some lon \<and> parseFloat p b = Some lat \<and>
         field r ''coordinates'' = JArr [JNum lon, JNum lat]) \<and>
      getProp (field r ''bloomingPeriod'') ''start'' =
        getProp (getProp body ''bloomingPeriod'') ''start'' \<and>
      getProp (field r ''bloomingPeriod'') ''peak'' =
        getProp (getProp body ''bloomingPeriod'') ''peak'' \<and>
      getProp (field r ''bloomingPeriod'') ''end'' =
        getProp (getProp body ''bloomingPeriod'') ''end''"
  proof
    assume post: "POST p store body = (Inr r, store')"
    note n = POST_normalises [OF post]
    from n obtain sid where "parseInt p (getProp body ''speciesId'') = Some sid"
      and "field r ''speciesId'' = JNum sid"
      by blast
    then have sp: "\<forall>x. parseInt p (getProp body ''speciesId'') = Some (Fin x) \<longrightarrow>
         field r ''speciesId'' = JNum (Fin x)"
      by simp
    from n have rest:
      "store' = store @ [r]"
      "\<not> missingField body" "\<not> invalidCoordinates body"
      "\<not> invalidBloomingPeriod body" "\<not> invalidDateOrder p body"
      "\<exists>s. getProp body ''locationName'' = JStr s \<and>
         field r ''locationName'' = JStr (trim p s)"
      "\<exists>a b lon lat. getProp body ''coordinates'' = JArr [a, b] \<and>
         parseFloat p a = Some lon \<and> parseFloat p b = Some lat \<and>
         field r ''coordinates'' = JArr [JNum lon, JNum lat]"
      "getProp (field r ''bloomingPeriod'') ''start'' =
        getProp (getProp body ''bloomingPeriod'') ''start''"
      "getProp (field r ''bloomingPeriod'') ''peak'' =
        getProp (getProp body ''bloomingPeriod'') ''peak''"
      "getProp (field r ''bloomingPeriod'') ''end'' =
        getProp (getProp body ''bloomingPeriod'') ''end''"
      by blast+
    show "store' = store @ [r] \<and>
      \<not> missingField body \<and> \<not> invalidCoordinates body \<and>
      \<not> invalidBloomingPeriod body \<and> \<not> invalidDateOrder p body \<and> converts p body \<and>
      (\<forall>x. parseInt p (getProp body ''speciesId'') = Some (Fin x) \<longrightarrow>
         field r ''speciesId'' = JNum (Fin x)) \<and>
      (\<exists>s. getProp body ''locationName'' = JStr s \<and>
         field r ''locationName'' = JStr (trim p s)) \<and>
      (\<exists>a b lon lat. getProp body ''coordinates'' = JArr [a, b] \<and>
         parseFloat p a = Some lon \<and> parseFloat p b = Some lat \<and>
         field r ''coordinates'' = JArr [JNum lon, JNum lat]) \<and>
      getProp (field r ''bloomingPeriod'') ''start'' =
        getProp (getProp body ''bloomingPeriod'') ''start'' \<and>
      getProp (field r ''bloomingPeriod'') ''peak'' =
        getProp (getProp body ''bloomingPeriod'') ''peak'' \<and>
      getProp (field r ''bloomingPeriod'') ''end'' =
        getProp (getProp body ''bloomingPeriod'') ''end''"
      by (intro conjI rest POST_Inr(6) [OF post] sp)
  qed
qed

text \<open>
  A payload whose \<open>locationName\<close> is the number 5 passes the four checks and is
  answered 500, with nothing stored. A payload whose \<open>speciesId\<close> is \<open>"abc"\<close> is
  stored with a \<open>speciesId\<close> that is NaN, no integer.
\<close>

theorem create_normalises_counterexample:
  "\<not> missingField payloadNumberName \<and> \<not> invalidCoordinates payloadNumberName \<and>
   \<not> invalidBloomingPeriod payloadNumberName \<and> \<not> invalidDateOrder js payloadNumberName \<and>
   POST js seed payloadNumberName = (Inl Unexpected, seed) \<and>
   POST js seed payloadTextSpecies =
     (Inr (newLocation js seed payloadTextSpecies),
      seed @ [newLocation js seed payloadTextSpecies]) \<and>
   field (newLocation js seed payloadTextSpecies) ''speciesId'' = JNum NaN"
proof -
  have "field (newLocation js seed payloadTextSpecies) ''speciesId'' = JNum NaN"
    by (simp add: field_def newLocation_def normalised_def payloadTextSpecies_def payload_def
        fmlookup_of_list js_simps js_parseInt_values)
  then show ?thesis
    by (simp add: POST_checks payloadNumberName_def payloadTextSpecies_def payload_simps
        js_parseInt_values)
qed

theorem create_normalises_witness:
  "\<not> missingField payload4 \<and> \<not> invalidCoordinates payload4 \<and>
   \<not> invalidBloomingPeriod payload4 \<and> \<not> invalidDateOrder js payload4 \<and>
   converts js payload4 \<and>
   POST js seed payload4 = (Inr (created 4), seed @ [created 4]) \<and>
   StoredLocation.id' (created 4) = 4 \<and>
   parseInt js (getProp payload4 ''speciesId'') = Some (Fin 2) \<and>
   field (created 4) ''speciesId'' = JNum (Fin 2) \<and>
   field (created 4) ''locationName'' = JStr ''Test Garden'' \<and>
   field (created 4) ''coordinates'' = JArr [JNum (Fin 106.7), JNum (Fin 10.78)] \<and>
   getProp (field (created 4) ''bloomingPeriod'') ''start'' = JStr ''2024-03-01'' \<and>
   getProp (field (created 4) ''bloomingPeriod'') ''peak'' = JStr ''2024-03-15'' \<and>
   getProp (field (created 4) ''bloomingPeriod'') ''end'' = JStr ''2024-04-01'' \<and>
   \<not> missingField payloadObjectSpecies \<and> \<not> invalidCoordinates payloadObjectSpecies \<and>
   \<not> invalidBloomingPeriod payloadObjectSpecies \<and> \<not> invalidDateOrder js payloadObjectSpecies \<and>
   \<not> converts js payloadObjectSpecies \<and>
   POST js seed payloadObjectSpecies = (Inl Unexpected, seed)"
proof -
  have a: "\<not> missingField payloadObjectSpecies \<and> \<not> invalidCoordinates payloadObjectSpecies \<and>
   \<not> invalidBloomingPeriod payloadObjectSpecies \<and> \<not> invalidDateOrder js payloadObjectSpecies \<and>
   \<not> converts js payloadObjectSpecies"
    by (simp add: payloadObjectSpecies_def payload_simps throwsOnConversion_def)
  from create_normalises [where body = payloadObjectSpecies and p = js and store = seed,
      THEN conjunct2, THEN conjunct1] a
  have b: "POST js seed payloadObjectSpecies = (Inl Unexpected, seed)"
    by (rule mp)
  have c: "\<not> missingField payload4 \<and> \<not> invalidCoordinates payload4 \<and>
   \<not> invalidBloomingPeriod payload4 \<and> \<not> invalidDateOrder js payload4 \<and>
   converts js payload4 \<and>
   POST js seed payload4 = (Inr (created 4), seed @ [created 4]) \<and>
   StoredLocation.id' (created 4) = 4 \<and>
   parseInt js (getProp payload4 ''speciesId'') = Some (Fin 2) \<and>
   field (created 4) ''speciesId'' = JNum (Fin 2) \<and>
   field (created 4) ''locationName'' = JStr ''Test Garden'' \<and>
   field (created 4) ''coordinates'' = JArr [JNum (Fin 106.7), JNum (Fin 10.78)] \<and>
   getProp (field (created 4) ''bloomingPeriod'') ''start'' = JStr ''2024-03-01'' \<and>
   getProp (field (created 4) ''bloomingPeriod'') ''peak'' = JStr ''2024-03-15'' \<and>
   getProp (field (created 4) ''bloomingPeriod'') ''end'' = JStr ''2024-04-01''"
    using create_normalises [where body = payload4 and p = js and store = seed
        and r = "created 4" and store' = "seed @ [created 4]", THEN conjunct2, THEN conjunct2]
      POST_seed_payload4
    by (simp add: payload4_def period_def fmlookup_of_list js_simps js_parseInt_values
        js_parseFloat_def js_trim_def isSpace_def) (simp add: created_def)
  from a b c show ?thesis
    by (intro conjI) (elim conjE, assumption)+
qed

section \<open>Identifiers\<close>

lemma findIndex_None: "findIndex P xs = None \<longleftrightarrow> (\<forall>x \<in> set xs. \<not> P x)"
  by (induction xs) auto

lemma findIndex_Some:
  "findIndex P xs = Some i \<Longrightarrow> i < length xs \<and> P (xs ! i) \<and> (\<forall>j < i. \<not> P (xs ! j))"
proof (induction xs arbitrary: i)
  case Nil
  then show ?case by simp
next
  case (Cons x xs)
  show ?case
  proof (cases "P x")
    case True
    with Cons.prems show ?thesis by simp
  next
    case False
    with Cons.prems obtain k where k: "findIndex P xs = Some k" "i = Suc k"
      by auto
    from Cons.IH [OF k(1)] False k(2) show ?thesis
      by (auto simp: less_Suc_eq_0_disj)
  qed
qed

lemma findIndex_ex: "(\<exists>x \<in> set xs. P x) \<Longrightarrow> \<exists>i. findIndex P xs = Some i"
  using findIndex_None [of P xs] by (cases "findIndex P xs") auto

lemma foldr_max_ge: "(0::int) \<le> foldr max xs 0 \<and> (\<forall>x \<in> set xs. x \<le> foldr max xs 0)"
  by (induction xs) auto

lemma foldr_max_Max: "foldr max xs (0::int) = Max (insert 0 (set xs))"
proof (induction xs)
  case Nil
  then show ?case by simp
next
  case (Cons x xs)
  have "Max (insert 0 (set (x # xs))) = Max (insert x (insert 0 (set xs)))"
    by (simp add: insert_commute)
  also have "\<dots> = max x (Max (insert 0 (set xs)))"
    by (rule Max_insert) auto
  finally show ?case using Cons by simp
qed

lemma foldr_max_mem: "foldr max xs (0::int) = 0 \<or> foldr max xs 0 \<in> set xs"
  by (induction xs) (auto simp: max_def)

lemma newId_Max: "newId store = Max (insert 0 (StoredLocation.id' ` set store)) + 1"
  by (simp add: newId_def foldr_max_Max)

lemma newId_gt: "l \<in> set store \<Longrightarrow> StoredLocation.id' l < newId store"
  using foldr_max_ge [of "map StoredLocation.id' store"] by (force simp: newId_def)

lemma newId_pos: "0 < newId store"
  using foldr_max_ge [of "map StoredLocation.id' store"] by (simp add: newId_def)

lemma newId_append: "newId (store @ [l]) = max (newId store) (StoredLocation.id' l + 1)"
  by (induction store) (auto simp: newId_def)

lemma newId_gt_iff:
  "0 < k \<Longrightarrow> (k < newId store) = (\<exists>l \<in> set store. k \<le> StoredLocation.id' l)"
proof
  assume k: "0 < k" and lt: "k < newId store"
  then have le: "k \<le> foldr max (map StoredLocation.id' store) 0"
    by (simp add: newId_def)
  with k have "foldr max (map StoredLocation.id' store) 0 \<noteq> 0"
    by simp
  with foldr_max_mem [of "map StoredLocation.id' store"]
  have "foldr max (map StoredLocation.id' store) 0 \<in> set (map StoredLocation.id' store)"
    by simp
  then obtain l where "l \<in> set store"
    and "StoredLocation.id' l = foldr max (map StoredLocation.id' store) 0"
    by auto
  with le show "\<exists>l \<in> set store. k \<le> StoredLocation.id' l"
    by metis
next
  assume "\<exists>l \<in> set store. k \<le> StoredLocation.id' l"
  then obtain l where "l \<in> set store" and "k \<le> StoredLocation.id' l"
    by blast
  with newId_gt [of l store] show "k < newId store"
    by simp
qed

lemma PUT_cases:
  "PUT p store body =
     (if nullish body then (Inl Unexpected, store)
      else if \<not> truthy (getProp body ''id'') then (Inl MissingId, store)
      else if store = [] then (Inl NotFound, store)
      else (case parseInt p (getProp body ''id'') of
              None \<Rightarrow> (Inl Unexpected, store)
            | Some n \<Rightarrow>
                (case findIndex (idIs n) store of
                   None \<Rightarrow> (Inl NotFound, store)
                 | Some i \<Rightarrow>
                     (Inr (merged (store ! i) body), store[i := merged (store ! i) body]))))"
  by (simp add: PUT_def Let_def merged_def split: option.splits)

lemma PUT_ids: "map StoredLocation.id' (snd (PUT p store body)) = map StoredLocation.id' store"
  by (auto simp: PUT_cases map_update list_update_same_conv
      split: option.splits dest: findIndex_Some)

lemma DELETE_sub: "set (snd (DELETE p store idParam)) \<subseteq> set store"
  by (auto simp: DELETE_def split: option.splits if_splits dest: in_set_takeD in_set_dropD)

lemma DELETE_ids_distinct:
  "distinct (map StoredLocation.id' store) \<Longrightarrow>
   distinct (map StoredLocation.id' (snd (DELETE p store idParam)))"
proof -
  assume d: "distinct (map StoredLocation.id' store)"
  have "distinct (map StoredLocation.id' (take i store @ drop (Suc i) store))" for i
  proof -
    have "distinct (take i (map StoredLocation.id' store) @ drop (Suc i) (map StoredLocation.id' store))"
      using d by (metis distinct_append distinct_drop distinct_take
          set_take_disj_set_drop_if_distinct le_SucI order_refl)
    then show ?thesis by (simp add: take_map drop_map)
  qed
  then show ?thesis
    using d by (auto simp: DELETE_def split: option.splits if_splits)
qed

lemma POST_ids_distinct:
  "distinct (map StoredLocation.id' store) \<Longrightarrow>
   distinct (map StoredLocation.id' (snd (POST p store body)))"
proof -
  assume d: "distinct (map StoredLocation.id' store)"
  have "distinct (map StoredLocation.id' (store @ [newLocation p store body]))"
    using d newId_gt [of _ store] by fastforce
  with d show ?thesis
    by (simp add: POST_checks)
qed

lemma serve_ids_distinct:
  "distinct (map StoredLocation.id' store) \<Longrightarrow>
   distinct (map StoredLocation.id' (snd (serve p store q)))"
  by (cases q) (simp_all add: POST_ids_distinct PUT_ids DELETE_ids_distinct)

lemma run_ids_distinct:
  "distinct (map StoredLocation.id' store) \<Longrightarrow>
   distinct (map StoredLocation.id' (run p store rs))"
  by (induction rs arbitrary: store) (simp_all add: serve_ids_distinct)

lemma seed_ids_distinct: "distinct (map StoredLocation.id' seed)"
  by (simp add: seed_def)

text \<open>
  Claim C1, as the code has it. A successful Create gives the new record the id
  \<open>max(existing ids, 0) + 1\<close>, which is greater than every id in the store at that
  moment. After any requests whatever, the next successful Create gets an id greater
  than that one exactly when the store still holds a record whose id is at least that
  one: so ids keep increasing past an Update, a refused request and a Delete of a record
  with a smaller id, and they do not once every record with that id or a greater one has
  been deleted.
\<close>

theorem create_assigns_id:
  "POST p store body = (Inr r, store') \<Longrightarrow>
   StoredLocation.id' r = Max (insert 0 (StoredLocation.id' ` set store)) + 1 \<and>
   (\<forall>l \<in> set store. StoredLocation.id' l < StoredLocation.id' r) \<and>
   (\<forall>rs body2 r2 store2.
      POST p (run p store' rs) body2 = (Inr r2, store2) \<longrightarrow>
        (StoredLocation.id' r < StoredLocation.id' r2) =
        (\<exists>l \<in> set (run p store' rs). StoredLocation.id' r \<le> StoredLocation.id' l))"
proof -
  assume post: "POST p store body = (Inr r, store')"
  from POST_Inr(7) [OF post] have idr: "StoredLocation.id' r = newId store"
    by simp
  have a: "StoredLocation.id' r = Max (insert 0 (StoredLocation.id' ` set store)) + 1"
    by (simp only: idr newId_Max)
  have b: "\<forall>l \<in> set store. StoredLocation.id' l < StoredLocation.id' r"
    by (simp add: idr newId_gt)
  have c: "(StoredLocation.id' r < StoredLocation.id' r2) =
        (\<exists>l \<in> set (run p store' rs). StoredLocation.id' r \<le> StoredLocation.id' l)"
    if post2: "POST p (run p store' rs) body2 = (Inr r2, store2)"
    for rs body2 r2 store2
  proof -
    from POST_Inr(7) [OF post2] have "StoredLocation.id' r2 = newId (run p store' rs)"
      by simp
    moreover have "0 < StoredLocation.id' r"
      by (simp add: idr newId_pos)
    ultimately show ?thesis
      by (simp add: newId_gt_iff)
  qed
  from a b c show ?thesis by blast
qed

text \<open>
  From the seed (ids 1 to 3): Create answers id 4, Delete removes id 4, and the next
  Create answers id 4 again.
\<close>

theorem create_assigns_id_counterexample:
  "fst (POST js seed payload4) = Inr (created 4) \<and>
   fst (DELETE js (snd (POST js seed payload4)) (Some ''4'')) = Inr (created 4) \<and>
   fst (POST js (snd (DELETE js (snd (POST js seed payload4)) (Some ''4''))) payload4) =
     Inr (created 4) \<and>
   StoredLocation.id' (created 4) = 4"
proof -
  have del: "DELETE js (seed @ [created 4]) (Some ''4'') = (Inr (created 4), seed)"
    by (simp add: DELETE_def seed_def created_def js_simps js_parseInt_values idIs_def)
  show ?thesis
    by (simp add: POST_seed_payload4 del) (simp add: created_def)
qed

text \<open>
  Create answers id 4; after a Delete of record 2, and after a Delete that finds no
  record 99, record 4 is still there and the next Create answers id 5; after a Delete of
  record 4 no record with an id of 4 or more is left and the next Create answers id 4.
\<close>

theorem create_assigns_id_witness:
  "POST js seed payload4 = (Inr (created 4), seed @ [created 4]) \<and>
   StoredLocation.id' (created 4) = Max (insert 0 (StoredLocation.id' ` set seed)) + 1 \<and>
   run js (seed @ [created 4]) [Delete (Some ''2'')] = [seed ! 0, seed ! 2, created 4] \<and>
   fst (POST js (run js (seed @ [created 4]) [Delete (Some ''2'')]) payload4) =
     Inr (created 5) \<and>
   run js (seed @ [created 4]) [Delete (Some ''99'')] = seed @ [created 4] \<and>
   fst (POST js (run js (seed @ [created 4]) [Delete (Some ''99'')]) payload4) =
     Inr (created 5) \<and>
   StoredLocation.id' (created 4) < StoredLocation.id' (created 5) \<and>
   run js (seed @ [created 4]) [Delete (Some ''4'')] = seed \<and>
   fst (POST js (run js (seed @ [created 4]) [Delete (Some ''4'')]) payload4) =
     Inr (created 4) \<and>
   \<not> (\<exists>l \<in> set seed. StoredLocation.id' (created 4) \<le> StoredLocation.id' l)"
proof -
  have d2: "run js (seed @ [created 4]) [Delete (Some ''2'')] = [seed ! 0, seed ! 2, created 4]"
    by (simp add: DELETE_def seed_def created_def js_simps js_parseInt_values idIs_def)
  have d99: "run js (seed @ [created 4]) [Delete (Some ''99'')] = seed @ [created 4]"
    by (simp add: DELETE_def seed_def created_def js_simps js_parseInt_values idIs_def)
  have d4: "run js (seed @ [created 4]) [Delete (Some ''4'')] = seed"
    by (simp add: DELETE_def seed_def created_def js_simps js_parseInt_values idIs_def)
  have n2: "newId [seed ! 0, seed ! 2, created 4] = 5"
    by (simp add: newId_def seed_def created_def)
  have n99: "newId (seed @ [created 4]) = 5"
    by (simp add: newId_def seed_def created_def)
  have p2: "POST js (run js (seed @ [created 4]) [Delete (Some ''2'')]) payload4 =
      (Inr (created 5), run js (seed @ [created 4]) [Delete (Some ''2'')] @ [created 5])"
    unfolding d2 by (simp only: POST_payload4 n2)
  have p99: "POST js (run js (seed @ [created 4]) [Delete (Some ''99'')]) payload4 =
      (Inr (created 5), run js (seed @ [created 4]) [Delete (Some ''99'')] @ [created 5])"
    unfolding d99 by (simp only: POST_payload4 n99)
  have p4: "POST js (run js (seed @ [created 4]) [Delete (Some ''4'')]) payload4 =
      (Inr (created 4), run js (seed @ [created 4]) [Delete (Some ''4'')] @ [created 4])"
    unfolding d4 by (simp only: POST_seed_payload4)
  have none: "\<not> (\<exists>l \<in> set seed. StoredLocation.id' (created 4) \<le> StoredLocation.id' l)"
    by (simp add: seed_def created_def)
  have lt: "StoredLocation.id' (created 4) < StoredLocation.id' (created 5)"
    using create_assigns_id [OF POST_seed_payload4] p2 d2 by (simp add: created_def)
  from create_assigns_id [OF POST_seed_payload4]
  have "StoredLocation.id' (created 4) = Max (insert 0 (StoredLocation.id' ` set seed)) + 1"
    by blast
  with d2 d99 d4 p2 p99 p4 none lt POST_seed_payload4 show ?thesis
    by simp
qed

section \<open>Update\<close>

lemma fmlookup_merged:
  "fmlookup (props (merged old (JObj m))) k =
     (if k \<noteq> ''id'' \<and> k |\<in>| fmdom m then fmlookup m k else fmlookup (props old) k)"
  by (auto simp: merged_def fmdom_notD)

lemma PUT_reads_id:
  "truthy (getProp (JObj m) ''id'') \<Longrightarrow> parseInt p (getProp (JObj m) ''id'') = Some n \<Longrightarrow>
   ((\<forall>l \<in> set store. \<not> idIs n l) \<longrightarrow> PUT p store (JObj m) = (Inl NotFound, store)) \<and>
   ((\<exists>l \<in> set store. idIs n l) \<longrightarrow>
      (\<exists>i r. i < length store \<and> idIs n (store ! i) \<and>
         PUT p store (JObj m) = (Inr r, store[i := r]) \<and>
         StoredLocation.id' r = StoredLocation.id' (store ! i) \<and>
         (\<forall>k. fmlookup (props r) k =
            (if k \<noteq> ''id'' \<and> k |\<in>| fmdom m then fmlookup m k
             else fmlookup (props (store ! i)) k))))"
proof (intro conjI impI)
  assume t: "truthy (getProp (JObj m) ''id'')"
    and n: "parseInt p (getProp (JObj m) ''id'') = Some n"
    and no: "\<forall>l \<in> set store. \<not> idIs n l"
  from no have "findIndex (idIs n) store = None"
    by (simp only: findIndex_None)
  with t n show "PUT p store (JObj m) = (Inl NotFound, store)"
    by (simp add: PUT_cases)
next
  assume t: "truthy (getProp (JObj m) ''id'')"
    and n: "parseInt p (getProp (JObj m) ''id'') = Some n"
    and ex: "\<exists>l \<in> set store. idIs n l"
  from ex have ne: "store \<noteq> []"
    by auto
  from ex obtain i where i: "findIndex (idIs n) store = Some i"
    using findIndex_ex [of store "idIs n"] by blast
  from findIndex_Some [OF i] have lt: "i < length store"
    and hit: "idIs n (store ! i)" by simp_all
  have put: "PUT p store (JObj m) =
      (Inr (merged (store ! i) (JObj m)), store[i := merged (store ! i) (JObj m)])"
    using t n ne i by (simp add: PUT_cases)
  have idr: "StoredLocation.id' (merged (store ! i) (JObj m)) = StoredLocation.id' (store ! i)"
    by simp
  have look: "\<forall>k. fmlookup (props (merged (store ! i) (JObj m))) k =
            (if k \<noteq> ''id'' \<and> k |\<in>| fmdom m then fmlookup m k
             else fmlookup (props (store ! i)) k)"
    by (simp only: fmlookup_merged) simp
  show "\<exists>i r. i < length store \<and> idIs n (store ! i) \<and>
         PUT p store (JObj m) = (Inr r, store[i := r]) \<and>
         StoredLocation.id' r = StoredLocation.id' (store ! i) \<and>
         (\<forall>k. fmlookup (props r) k =
            (if k \<noteq> ''id'' \<and> k |\<in>| fmdom m then fmlookup m k
             else fmlookup (props (store ! i)) k))"
    by (rule exI [of _ i], rule exI [of _ "merged (store ! i) (JObj m)"])
       (intro conjI lt hit put idr look)
qed

text \<open>
  Claim C8, as the code has it. A request body without a truthy \<open>id\<close> (none, 0, the
  empty string) is answered 400, Location ID is required. Otherwise \<open>PUT\<close> looks for
  the record whose id is the number \<open>n\<close> that \<open>parseInt\<close> reads from the id sent,
  which is the integer it begins with (2 from 2, from \<open>"2"\<close>, from 2.5 and from
  \<open>"2abc"\<close>). It answers NotFound, leaving the store as it was, when no record has the
  id \<open>n\<close>. Otherwise it replaces the first such record by the shallow merge and
  returns it: the id is the old one, whatever the body carries as \<open>id\<close>; every other
  property of the body overrides the record's, with no check of its value; every
  property the body lacks is retained. The other records stay in place. When
  \<open>parseInt\<close> throws on the id sent and the store is not empty, the answer is 500.
\<close>

theorem update_by_id:
  "(\<not> truthy (getProp (JObj m) ''id'') \<longrightarrow> PUT p store (JObj m) = (Inl MissingId, store)) \<and>
   (truthy (getProp (JObj m) ''id'') \<and> store \<noteq> [] \<and>
    parseInt p (getProp (JObj m) ''id'') = None \<longrightarrow>
      PUT p store (JObj m) = (Inl Unexpected, store)) \<and>
   (truthy (getProp (JObj m) ''id'') \<and> parseInt p (getProp (JObj m) ''id'') = Some n \<longrightarrow>
      ((\<forall>l \<in> set store. \<not> idIs n l) \<longrightarrow> PUT p store (JObj m) = (Inl NotFound, store)) \<and>
      ((\<exists>l \<in> set store. idIs n l) \<longrightarrow>
         (\<exists>i r. i < length store \<and> idIs n (store ! i) \<and>
            PUT p store (JObj m) = (Inr r, store[i := r]) \<and>
            StoredLocation.id' r = StoredLocation.id' (store ! i) \<and>
            (\<forall>k. fmlookup (props r) k =
               (if k \<noteq> ''id'' \<and> k |\<in>| fmdom m then fmlookup m k
                else fmlookup (props (store ! i)) k)))))"
proof (intro conjI)
  show "\<not> truthy (getProp (JObj m) ''id'') \<longrightarrow> PUT p store (JObj m) = (Inl MissingId, store)"
    by (simp add: PUT_cases)
  show "truthy (getProp (JObj m) ''id'') \<and> store \<noteq> [] \<and>
    parseInt p (getProp (JObj m) ''id'') = None \<longrightarrow>
      PUT p store (JObj m) = (Inl Unexpected, store)"
    by (simp add: PUT_cases)
  show "truthy (getProp (JObj m) ''id'') \<and> parseInt p (getProp (JObj m) ''id'') = Some n \<longrightarrow>
      ((\<forall>l \<in> set store. \<not> idIs n l) \<longrightarrow> PUT p store (JObj m) = (Inl NotFound, store)) \<and>
      ((\<exists>l \<in> set store. idIs n l) \<longrightarrow>
         (\<exists>i r. i < length store \<and> idIs n (store ! i) \<and>
            PUT p store (JObj m) = (Inr r, store[i := r]) \<and>
            StoredLocation.id' r = StoredLocation.id' (store ! i) \<and>
            (\<forall>k. fmlookup (props r) k =
               (if k \<noteq> ''id'' \<and> k |\<in>| fmdom m then fmlookup m k
                else fmlookup (props (store ! i)) k))))"
    using PUT_reads_id [of m p n store] by (intro impI) (elim conjE, assumption)
qed

text \<open>
  The store holds the ids 1, 2 and 3. An update sent with the id 0 is answered 400,
  not NotFound. An update sent with the id 2.5, which no record has, is not refused: it
  overwrites record 2.
\<close>

theorem update_by_id_counterexample:
  "map StoredLocation.id' seed = [1, 2, 3] \<and>
   getProp (JObj patchZero) ''id'' = JNum (Fin 0) \<and>
   PUT js seed (JObj patchZero) = (Inl MissingId, seed) \<and>
   getProp (JObj patchFraction) ''id'' = JNum (Fin 2.5) \<and>
   PUT js seed (JObj patchFraction) =
     (Inr (merged (seed ! 1) (JObj patchFraction)),
      seed[1 := merged (seed ! 1) (JObj patchFraction)]) \<and>
   StoredLocation.id' (merged (seed ! 1) (JObj patchFraction)) = 2 \<and>
   field (merged (seed ! 1) (JObj patchFraction)) ''locationName'' = JStr ''Moved''"
proof -
  have ids: "map StoredLocation.id' seed = [1, 2, 3]"
    by (simp add: seed_def)
  have zero: "PUT js seed (JObj patchZero) = (Inl MissingId, seed)"
    by (simp add: PUT_cases patchZero_def fmlookup_of_list)
  have half: "js_parseInt (JNum (Fin (5 / 2))) = Fin 2"
    using js_parseInt_values by simp
  have frac: "PUT js seed (JObj patchFraction) =
     (Inr (merged (seed ! 1) (JObj patchFraction)),
      seed[1 := merged (seed ! 1) (JObj patchFraction)])"
    by (simp add: PUT_cases patchFraction_def fmlookup_of_list js_simps half
        idIs_def seed_def)
  have look: "field (merged (seed ! 1) (JObj patchFraction)) ''locationName'' = JStr ''Moved''"
    "StoredLocation.id' (merged (seed ! 1) (JObj patchFraction)) = 2"
    by (simp_all add: field_def fmlookup_merged)
       (simp_all add: patchFraction_def seed_def fmlookup_of_list)
  from ids zero frac look show ?thesis
    by (simp add: patchZero_def patchFraction_def fmlookup_of_list)
qed

text \<open>
  An Update of record 2, named by the string \<open>"2"\<close>, with a blooming period whose peak
  lies before its start: it succeeds, and the stored record now has an invalid date
  order. An Update with the id 99 finds no record; one without an id and one whose id is
  an object that does not convert are refused.
\<close>

theorem update_by_id_witness:
  "truthy (getProp (JObj patchDates) ''id'') \<and>
   parseInt js (getProp (JObj patchDates) ''id'') = Some (Fin 2) \<and>
   (\<exists>l \<in> set seed. idIs (Fin 2) l) \<and>
   PUT js seed (JObj patchDates) =
     (Inr (merged (seed ! 1) (JObj patchDates)), seed[1 := merged (seed ! 1) (JObj patchDates)]) \<and>
   StoredLocation.id' (merged (seed ! 1) (JObj patchDates)) = 2 \<and>
   field (merged (seed ! 1) (JObj patchDates)) ''speciesId'' = JNum (Fin 2) \<and>
   field (merged (seed ! 1) (JObj patchDates)) ''bloomingPeriod'' =
     period ''2024-03-15'' ''2024-03-01'' ''2024-04-01'' \<and>
   invalidDateOrder js (JObj (props (merged (seed ! 1) (JObj patchDates)))) \<and>
   truthy (getProp (JObj patchUnknownId) ''id'') \<and>
   parseInt js (getProp (JObj patchUnknownId) ''id'') = Some (Fin 99) \<and>
   \<not> (\<exists>l \<in> set seed. idIs (Fin 99) l) \<and>
   PUT js seed (JObj patchUnknownId) = (Inl NotFound, seed) \<and>
   \<not> truthy (getProp (JObj fmempty) ''id'') \<and>
   PUT js seed (JObj fmempty) = (Inl MissingId, seed) \<and>
   truthy (getProp (JObj patchObjectId) ''id'') \<and> seed \<noteq> [] \<and>
   parseInt js (getProp (JObj patchObjectId) ''id'') = None \<and>
   PUT js seed (JObj patchObjectId) = (Inl Unexpected, seed)"
proof -
  have n2: "parseInt js (getProp (JObj patchDates) ''id'') = Some (Fin 2)"
    by (simp add: patchDates_def fmlookup_of_list js_simps js_parseInt_values)
  have n99: "parseInt js (getProp (JObj patchUnknownId) ''id'') = Some (Fin 99)"
    by (simp add: patchUnknownId_def fmlookup_of_list js_simps js_parseInt_values)
  have nobj: "parseInt js (getProp (JObj patchObjectId) ''id'') = None"
    by (simp add: patchObjectId_def fmlookup_of_list js_simps throwsOnConversion_def)
  have hit: "\<exists>l \<in> set seed. idIs (Fin 2) l"
    by (simp add: idIs_def seed_def)
  have miss: "\<forall>l \<in> set seed. \<not> idIs (Fin 99) l"
    by (simp add: idIs_def seed_def)
  have ne: "seed \<noteq> []"
    by (simp add: seed_def)
  have t: "truthy (getProp (JObj patchDates) ''id'')" "truthy (getProp (JObj patchUnknownId) ''id'')"
    "truthy (getProp (JObj patchObjectId) ''id'')" "\<not> truthy (getProp (JObj fmempty) ''id'')"
    by (simp_all add: patchDates_def patchUnknownId_def patchObjectId_def fmlookup_of_list)
  have put: "PUT js seed (JObj patchDates) =
     (Inr (merged (seed ! 1) (JObj patchDates)), seed[1 := merged (seed ! 1) (JObj patchDates)])"
    by (simp add: PUT_cases patchDates_def fmlookup_of_list js_simps js_parseInt_values
        idIs_def seed_def)
  have look: "field (merged (seed ! 1) (JObj patchDates)) ''speciesId'' = JNum (Fin 2)"
    "field (merged (seed ! 1) (JObj patchDates)) ''bloomingPeriod'' =
       period ''2024-03-15'' ''2024-03-01'' ''2024-04-01''"
    "StoredLocation.id' (merged (seed ! 1) (JObj patchDates)) = 2"
    by (simp_all add: field_def fmlookup_merged)
       (simp_all add: patchDates_def seed_def fmlookup_of_list)
  have bad: "invalidDateOrder js (JObj (props (merged (seed ! 1) (JObj patchDates))))"
    using look(2) by (simp add: field_def invalidDateOrder_def parsedDates_def period_def
        fmlookup_of_list js_simps getTime_js_dates js_lt_def)
  from update_by_id [of patchUnknownId js seed "Fin 99"] t(2) n99 miss
  have nf: "PUT js seed (JObj patchUnknownId) = (Inl NotFound, seed)"
    by blast
  from update_by_id [of fmempty js seed "Fin 0"] t(4)
  have mi: "PUT js seed (JObj fmempty) = (Inl MissingId, seed)"
    by blast
  from update_by_id [of patchObjectId js seed "Fin 0"] t(3) ne nobj
  have un: "PUT js seed (JObj patchObjectId) = (Inl Unexpected, seed)"
    by blast
  show ?thesis
    by (intro conjI t n2 n99 nobj hit put look bad nf mi un ne) (use miss in blast)
qed

section \<open>Delete\<close>

lemma remove_nth_filter:
  "distinct (map f xs) \<Longrightarrow> i < length xs \<Longrightarrow>
   take i xs @ drop (Suc i) xs = filter (\<lambda>x. f x \<noteq> f (xs ! i)) xs"
proof (induction xs arbitrary: i)
  case Nil
  then show ?case by simp
next
  case (Cons x xs)
  show ?case
  proof (cases i)
    case 0
    have "\<forall>y \<in> set xs. f y \<noteq> f x"
      using Cons.prems(1) by (force simp: image_iff)
    then have "filter (\<lambda>y. f y \<noteq> f x) xs = xs"
      by (rule filter_True)
    with 0 show ?thesis by simp
  next
    case (Suc k)
    have "f x \<noteq> f (xs ! k)"
      using Cons.prems Suc by auto
    with Cons.IH [of k] Cons.prems Suc show ?thesis
      by simp
  qed
qed

lemma idIs_same: "idIs n a \<Longrightarrow> idIs n b = (StoredLocation.id' b = StoredLocation.id' a)"
  by (auto simp: idIs_def)

lemma DELETE_reads_id:
  "s \<noteq> [] \<Longrightarrow> parseInt p (JStr s) = Some n \<Longrightarrow>
   ((\<forall>l \<in> set store. \<not> idIs n l) \<longrightarrow> DELETE p store (Some s) = (Inl NotFound, store)) \<and>
   ((\<exists>l \<in> set store. idIs n l) \<longrightarrow>
      (\<exists>i < length store.
         idIs n (store ! i) \<and>
         DELETE p store (Some s) = (Inr (store ! i), take i store @ drop (Suc i) store) \<and>
         length (snd (DELETE p store (Some s))) + 1 = length store \<and>
         (distinct (map StoredLocation.id' store) \<longrightarrow>
            snd (DELETE p store (Some s)) = filter (\<lambda>l. \<not> idIs n l) store)))"
proof (intro conjI impI)
  assume s: "s \<noteq> []" and n: "parseInt p (JStr s) = Some n"
    and no: "\<forall>l \<in> set store. \<not> idIs n l"
  from no have "findIndex (idIs n) store = None"
    by (simp only: findIndex_None)
  with s n show "DELETE p store (Some s) = (Inl NotFound, store)"
    by (simp add: DELETE_def)
next
  assume s: "s \<noteq> []" and n: "parseInt p (JStr s) = Some n"
    and ex: "\<exists>l \<in> set store. idIs n l"
  from ex have ne: "store \<noteq> []"
    by auto
  from ex obtain i where i: "findIndex (idIs n) store = Some i"
    using findIndex_ex [of store "idIs n"] by blast
  from findIndex_Some [OF i] have lt: "i < length store"
    and hit: "idIs n (store ! i)" by simp_all
  have del: "DELETE p store (Some s) = (Inr (store ! i), take i store @ drop (Suc i) store)"
    using s n ne i by (simp add: DELETE_def)
  have len: "length (snd (DELETE p store (Some s))) + 1 = length store"
    using lt by (simp add: del)
  have same: "(\<lambda>l. \<not> idIs n l) =
      (\<lambda>l. StoredLocation.id' l \<noteq> StoredLocation.id' (store ! i))"
    by (rule ext) (simp add: idIs_same [OF hit])
  have flt: "distinct (map StoredLocation.id' store) \<longrightarrow>
      snd (DELETE p store (Some s)) = filter (\<lambda>l. \<not> idIs n l) store"
    unfolding same using remove_nth_filter [of StoredLocation.id' store i] lt
    by (simp add: del)
  show "\<exists>i < length store.
         idIs n (store ! i) \<and>
         DELETE p store (Some s) = (Inr (store ! i), take i store @ drop (Suc i) store) \<and>
         length (snd (DELETE p store (Some s))) + 1 = length store \<and>
         (distinct (map StoredLocation.id' store) \<longrightarrow>
            snd (DELETE p store (Some s)) = filter (\<lambda>l. \<not> idIs n l) store)"
    by (rule exI [of _ i]) (intro conjI lt hit del len flt)
qed

text \<open>
  Claim C9, as the code has it. A request without an \<open>id\<close> in its query string, or
  with an empty one, is answered 400, Location ID is required. Otherwise \<open>DELETE\<close>
  looks for the record whose id is the number \<open>n\<close> that \<open>parseInt\<close> reads from the
  id sent, which is the integer the string begins with (2 from \<open>2\<close>, from \<open>2abc\<close>
  and from \<open>2.9\<close>). It answers NotFound and leaves the store as it was when no record
  has the id \<open>n\<close>. Otherwise it returns the first record with that id and removes it,
  and only it: the store is one shorter, and where ids are distinct, as they are in
  every store reached from the seed, what remains is the store without the records of
  that id, in the same order.
\<close>

theorem delete_by_id:
  "(idParam = None \<or> idParam = Some [] \<longrightarrow> DELETE p store idParam = (Inl MissingId, store)) \<and>
   (s \<noteq> [] \<and> parseInt p (JStr s) = Some n \<longrightarrow>
      ((\<forall>l \<in> set store. \<not> idIs n l) \<longrightarrow> DELETE p store (Some s) = (Inl NotFound, store)) \<and>
      ((\<exists>l \<in> set store. idIs n l) \<longrightarrow>
         (\<exists>i < length store.
            idIs n (store ! i) \<and>
            DELETE p store (Some s) = (Inr (store ! i), take i store @ drop (Suc i) store) \<and>
            length (snd (DELETE p store (Some s))) + 1 = length store \<and>
            (distinct (map StoredLocation.id' store) \<longrightarrow>
               snd (DELETE p store (Some s)) = filter (\<lambda>l. \<not> idIs n l) store))))"
proof (intro conjI)
  show "idParam = None \<or> idParam = Some [] \<longrightarrow> DELETE p store idParam = (Inl MissingId, store)"
    by (auto simp: DELETE_def)
  show "s \<noteq> [] \<and> parseInt p (JStr s) = Some n \<longrightarrow>
      ((\<forall>l \<in> set store. \<not> idIs n l) \<longrightarrow> DELETE p store (Some s) = (Inl NotFound, store)) \<and>
      ((\<exists>l \<in> set store. idIs n l) \<longrightarrow>
         (\<exists>i < length store.
            idIs n (store ! i) \<and>
            DELETE p store (Some s) = (Inr (store ! i), take i store @ drop (Suc i) store) \<and>
            length (snd (DELETE p store (Some s))) + 1 = length store \<and>
            (distinct (map StoredLocation.id' store) \<longrightarrow>
               snd (DELETE p store (Some s)) = filter (\<lambda>l. \<not> idIs n l) store)))"
    using DELETE_reads_id [of s p n store] by (intro impI) (elim conjE, assumption)
qed

text \<open>
  The store holds the ids 1, 2 and 3. A Delete sent with the id \<open>2abc\<close>, which no
  record has, is not refused: it removes record 2.
\<close>

theorem delete_by_id_counterexample:
  "map StoredLocation.id' seed = [1, 2, 3] \<and>
   DELETE js seed (Some ''2abc'') = (Inr (seed ! 1), [seed ! 0, seed ! 2]) \<and>
   StoredLocation.id' (seed ! 1) = 2"
proof -
  have "DELETE js seed (Some ''2abc'') = (Inr (seed ! 1), [seed ! 0, seed ! 2])"
    by (simp add: DELETE_def js_simps js_parseInt_values) (simp add: idIs_def seed_def)
  then show ?thesis
    by (simp add: seed_def)
qed

theorem delete_by_id_witness:
  "''2'' \<noteq> [] \<and> parseInt js (JStr ''2'') = Some (Fin 2) \<and>
   (\<exists>l \<in> set seed. idIs (Fin 2) l) \<and>
   distinct (map StoredLocation.id' seed) \<and>
   DELETE js seed (Some ''2'') = (Inr (seed ! 1), [seed ! 0, seed ! 2]) \<and>
   snd (DELETE js seed (Some ''2'')) = filter (\<lambda>l. \<not> idIs (Fin 2) l) seed \<and>
   ''9'' \<noteq> [] \<and> parseInt js (JStr ''9'') = Some (Fin 9) \<and>
   \<not> (\<exists>l \<in> set seed. idIs (Fin 9) l) \<and>
   DELETE js seed (Some ''9'') = (Inl NotFound, seed) \<and>
   DELETE js seed None = (Inl MissingId, seed) \<and>
   DELETE js seed (Some []) = (Inl MissingId, seed)"
proof -
  have n2: "parseInt js (JStr ''2'') = Some (Fin 2)" and n9: "parseInt js (JStr ''9'') = Some (Fin 9)"
    by (simp_all add: js_simps js_parseInt_values)
  have hit: "\<exists>l \<in> set seed. idIs (Fin 2) l"
    by (simp add: idIs_def seed_def)
  have miss: "\<forall>l \<in> set seed. \<not> idIs (Fin 9) l"
    by (simp add: idIs_def seed_def)
  have del: "DELETE js seed (Some ''2'') = (Inr (seed ! 1), [seed ! 0, seed ! 2])"
    by (simp add: DELETE_def n2) (simp add: idIs_def seed_def)
  from delete_by_id [of None js seed "''2''" "Fin 2"] n2 hit seed_ids_distinct
  have flt: "snd (DELETE js seed (Some ''2'')) = filter (\<lambda>l. \<not> idIs (Fin 2) l) seed"
    by auto
  from delete_by_id [of None js seed "''9''" "Fin 9"] n9 miss
  have nf: "DELETE js seed (Some ''9'') = (Inl NotFound, seed)"
    and m1: "DELETE js seed None = (Inl MissingId, seed)"
    by simp_all
  from delete_by_id [of "Some []" js seed "''9''" "Fin 9"]
  have m2: "DELETE js seed (Some []) = (Inl MissingId, seed)"
    by simp
  from hit miss del flt nf m1 m2 seed_ids_distinct n2 n9 show ?thesis
    by simp
qed

section \<open>Coordinates of stored records\<close>

lemma twoFiniteNumbers_iff: "twoFiniteNumbers v = (\<exists>a b. v = JArr [JNum (Fin a), JNum (Fin b)])"
  by (cases v rule: twoFiniteNumbers.cases) simp_all

lemma isFinite_iff: "isFinite x = (\<exists>a. x = Some (Fin a))"
  by (cases x rule: isFinite.cases) simp_all

lemma seed_coordinates: "\<forall>l \<in> set seed. twoFiniteNumbers (field l ''coordinates'')"
  by (simp add: seed_def field_def fmlookup_of_list)

lemma newLocation_twoFiniteNumbers:
  assumes "converts p body" and "readsFinite p body"
  shows "twoFiniteNumbers (field (newLocation p store body) ''coordinates'')"
proof -
  from field_newLocation [OF assms(1), of store] obtain lon lat where
    "parseFloat p (elem (getProp body ''coordinates'') 0) = Some lon"
    "parseFloat p (elem (getProp body ''coordinates'') 1) = Some lat"
    "field (newLocation p store body) ''coordinates'' = JArr [JNum lon, JNum lat]"
    by blast
  with assms(2) show ?thesis
    by (auto simp: readsFinite_def isFinite_iff)
qed

lemma POST_result:
  "(\<exists>e. POST p store body = (Inl e, store)) \<or>
   (accepted p body \<and>
    POST p store body = (Inr (newLocation p store body), store @ [newLocation p store body]))"
proof (cases "POST p store body")
  case (Pair x store')
  show ?thesis
  proof (cases x)
    case (Inl e)
    with Pair POST_Inl [of p store body e store'] show ?thesis
      by simp
  next
    case (Inr r)
    with Pair have post: "POST p store body = (Inr r, store')"
      by simp
    from POST_Inr [OF post] post show ?thesis
      by (simp add: accepted_def)
  qed
qed

lemma POST_keepsFinite:
  assumes "\<forall>l \<in> set store. twoFiniteNumbers (field l ''coordinates'')"
    and "\<not> accepted p body \<or> readsFinite p body"
  shows "\<forall>l \<in> set (snd (POST p store body)). twoFiniteNumbers (field l ''coordinates'')"
  using POST_result [of p store body] assms
  by (auto simp: accepted_def intro: newLocation_twoFiniteNumbers)

lemma merged_keepsCoordinates:
  assumes "twoFiniteNumbers (field old ''coordinates'')" and "keepsCoordinates body"
  shows "twoFiniteNumbers (field (merged old body) ''coordinates'')"
proof (cases body)
  case (JObj m)
  show ?thesis
  proof (cases "fmlookup m ''coordinates''")
    case None
    with assms(1) show ?thesis
      by (simp add: JObj field_def fmlookup_merged fmlookup_dom_iff)
  next
    case (Some v)
    with assms(2) show ?thesis
      by (simp add: JObj field_def fmlookup_merged fmlookup_dom_iff keepsCoordinates_def)
  qed
qed (use assms(1) in \<open>simp_all add: merged_def field_def\<close>)

lemma PUT_result:
  "(\<exists>e. PUT p store body = (Inl e, store)) \<or>
   (\<exists>i < length store.
      PUT p store body = (Inr (merged (store ! i) body), store[i := merged (store ! i) body]))"
  by (auto simp: PUT_cases split: option.splits dest: findIndex_Some)

lemma PUT_keepsFinite:
  assumes inv: "\<forall>l \<in> set store. twoFiniteNumbers (field l ''coordinates'')"
    and k: "isl (fst (PUT p store body)) \<or> keepsCoordinates body"
  shows "\<forall>l \<in> set (snd (PUT p store body)). twoFiniteNumbers (field l ''coordinates'')"
proof -
  from PUT_result [of p store body] consider
    (refused) e where "PUT p store body = (Inl e, store)"
  | (stored) i where "i < length store"
      "PUT p store body = (Inr (merged (store ! i) body), store[i := merged (store ! i) body])"
    by blast
  then show ?thesis
  proof cases
    case refused
    with inv show ?thesis by simp
  next
    case stored
    with k have kc: "keepsCoordinates body"
      by simp
    from inv stored(1) have "twoFiniteNumbers (field (store ! i) ''coordinates'')"
      by simp
    then have m: "twoFiniteNumbers (field (merged (store ! i) body) ''coordinates'')"
      using kc by (rule merged_keepsCoordinates)
    have "set (store[i := merged (store ! i) body]) \<subseteq> insert (merged (store ! i) body) (set store)"
      by (rule set_update_subset_insert)
    with inv m show ?thesis
      by (auto simp: stored(2))
  qed
qed

lemma serve_keepsFinite:
  assumes inv: "\<forall>l \<in> set store. twoFiniteNumbers (field l ''coordinates'')"
    and k: "keepsFinite p store q"
  shows "\<forall>l \<in> set (snd (serve p store q)). twoFiniteNumbers (field l ''coordinates'')"
proof (cases q)
  case (Create body)
  with k show ?thesis
    using POST_keepsFinite [OF inv, of p body] by simp
next
  case (Update body)
  with k show ?thesis
    using PUT_keepsFinite [OF inv, of p body] by simp
next
  case (Delete idParam)
  with inv show ?thesis
    using DELETE_sub [of p store idParam] by auto
qed

lemma run_keepsFinite:
  "runKeepsFinite p store rs \<Longrightarrow> \<forall>l \<in> set store. twoFiniteNumbers (field l ''coordinates'') \<Longrightarrow>
   \<forall>l \<in> set (run p store rs). twoFiniteNumbers (field l ''coordinates'')"
proof (induction rs arbitrary: store)
  case Nil
  then show ?case by simp
next
  case (Cons q rs)
  have "\<forall>l \<in> set (snd (serve p store q)). twoFiniteNumbers (field l ''coordinates'')"
    using Cons.prems by (intro serve_keepsFinite) simp_all
  then show ?case
    using Cons.prems(1) Cons.IH [of "snd (serve p store q)"] by simp
qed

lemma PUT_seed_patchCoordinates:
  "PUT js seed (JObj patchCoordinates) =
     (Inr (merged (seed ! 0) (JObj patchCoordinates)),
      seed[0 := merged (seed ! 0) (JObj patchCoordinates)])"
  by (simp add: PUT_cases patchCoordinates_def fmlookup_of_list js_simps js_parseInt_values
      idIs_def seed_def)

lemma POST_seed_payloadNullCoords:
  "POST js seed payloadNullCoords =
     (Inr (newLocation js seed payloadNullCoords),
      seed @ [newLocation js seed payloadNullCoords])"
  by (simp add: POST_checks payloadNullCoords_def payload_simps)

text \<open>
  Claim C10, as the code has it. Every seed record has coordinates of exactly two finite
  numbers. A record that Create stores has them when \<open>parseFloat\<close> reads both elements
  of the payload's coordinates as finite numbers. Every record of a store reached from
  the seed has them when each request on the way is a refused Create, a Create whose
  two elements read as finite numbers, a refused Update, an Update whose body has no
  \<open>coordinates\<close> of its own or has two finite numbers there, or a Delete. Nothing is
  stated about the other runs.
\<close>

theorem coordinates_invariant:
  "(\<forall>l \<in> set seed. twoFiniteNumbers (field l ''coordinates'')) \<and>
   (POST p store body = (Inr r, store') \<and> readsFinite p body \<longrightarrow>
      twoFiniteNumbers (field r ''coordinates'')) \<and>
   (runKeepsFinite p seed rs \<longrightarrow>
      (\<forall>l \<in> set (run p seed rs). twoFiniteNumbers (field l ''coordinates'')))"
proof (intro conjI impI)
  show "\<forall>l \<in> set seed. twoFiniteNumbers (field l ''coordinates'')"
    by (rule seed_coordinates)
next
  assume a: "POST p store body = (Inr r, store') \<and> readsFinite p body"
  then have post: "POST p store body = (Inr r, store')" and rf: "readsFinite p body"
    by simp_all
  show "twoFiniteNumbers (field r ''coordinates'')"
    unfolding POST_Inr(7) [OF post]
    by (rule newLocation_twoFiniteNumbers [OF POST_Inr(6) [OF post] rf])
next
  assume "runKeepsFinite p seed rs"
  then show "\<forall>l \<in> set (run p seed rs). twoFiniteNumbers (field l ''coordinates'')"
    using seed_coordinates by (rule run_keepsFinite)
qed

text \<open>
  An Update with \<open>coordinates: "x"\<close> leaves record 1 with a string for coordinates,
  and a Create with \<open>coordinates: [null, null]\<close> stores a record whose coordinates
  are not two finite numbers.
\<close>

theorem coordinates_invariant_counterexample:
  "\<not> twoFiniteNumbers (field (run js seed [Update (JObj patchCoordinates)] ! 0) ''coordinates'') \<and>
   \<not> twoFiniteNumbers (field (run js seed [Create payloadNullCoords] ! 3) ''coordinates'')"
proof
  have "field (merged (seed ! 0) (JObj patchCoordinates)) ''coordinates'' = JStr ''x''"
    by (simp add: field_def fmlookup_merged) (simp add: patchCoordinates_def fmlookup_of_list)
  then show "\<not> twoFiniteNumbers
      (field (run js seed [Update (JObj patchCoordinates)] ! 0) ''coordinates'')"
    by (simp add: PUT_seed_patchCoordinates) (simp add: seed_def)
next
  have "field (newLocation js seed payloadNullCoords) ''coordinates'' =
      JArr [JNum NaN, JNum NaN]"
    by (simp add: field_def newLocation_def normalised_def payloadNullCoords_def payload_def
        fmlookup_of_list js_simps js_parseFloat_def)
  then show "\<not> twoFiniteNumbers (field (run js seed [Create payloadNullCoords] ! 3) ''coordinates'')"
    by (simp add: POST_seed_payloadNullCoords) (simp add: seed_def)
qed

text \<open>
  A run from the seed: a Create whose coordinates read as finite numbers, an Update
  of the unknown id 99 that carries \<open>coordinates: "x"\<close> and is refused, an Update of
  the blooming period of record 2, and the Delete of record 2.
\<close>

theorem coordinates_invariant_witness:
  "POST js seed payload4 = (Inr (created 4), seed @ [created 4]) \<and>
   readsFinite js payload4 \<and>
   twoFiniteNumbers (field (created 4) ''coordinates'') \<and>
   PUT js (seed @ [created 4]) (JObj patchRefused) = (Inl NotFound, seed @ [created 4]) \<and>
   \<not> keepsCoordinates (JObj patchRefused) \<and>
   runKeepsFinite js seed
     [Create payload4, Update (JObj patchRefused), Update (JObj patchDates),
      Delete (Some ''2'')] \<and>
   list_all (\<lambda>l. twoFiniteNumbers (field l ''coordinates''))
     (run js seed
        [Create payload4, Update (JObj patchRefused), Update (JObj patchDates),
         Delete (Some ''2'')])"
proof -
  have rf: "readsFinite js payload4"
    by (simp add: readsFinite_def payload4_def payload_def fmlookup_of_list js_simps
        js_parseFloat_def)
  have put: "PUT js (seed @ [created 4]) (JObj patchRefused) = (Inl NotFound, seed @ [created 4])"
    by (simp add: PUT_cases patchRefused_def fmlookup_of_list js_simps js_parseInt_values
        idIs_def seed_def created_def)
  have nk: "\<not> keepsCoordinates (JObj patchRefused)"
    by (simp add: keepsCoordinates_def patchRefused_def fmlookup_of_list)
  have kd: "keepsCoordinates (JObj patchDates)"
    by (simp add: keepsCoordinates_def patchDates_def fmlookup_of_list)
  have rk: "runKeepsFinite js seed
     [Create payload4, Update (JObj patchRefused), Update (JObj patchDates),
      Delete (Some ''2'')]"
    by (simp add: rf POST_seed_payload4 put kd)
  from coordinates_invariant [of js seed payload4 "created 4" "seed @ [created 4]"
      "[Create payload4, Update (JObj patchRefused), Update (JObj patchDates),
        Delete (Some ''2'')]"] POST_seed_payload4 rf rk
  have "twoFiniteNumbers (field (created 4) ''coordinates'')"
    and "\<forall>l \<in> set (run js seed
        [Create payload4, Update (JObj patchRefused), Update (JObj patchDates),
         Delete (Some ''2'')]). twoFiniteNumbers (field l ''coordinates'')"
    by blast+
  with POST_seed_payload4 rf put nk rk show ?thesis
    unfolding list_all_iff by (intro conjI)
qed

end
